theory Spec2Isabelle
  imports Complex_Main
begin

section \<open>JavaScript numbers and errors\<close>

text \<open>
  A JavaScript number is modelled as a real number: every finite double is one, and the
  rounding of double arithmetic is not modelled. Two values that are no real numbers are
  written out:
  \<^item> reading \<^verbatim>\<open>xs[0]\<close> of an empty array gives \<^verbatim>\<open>undefined\<close>, and arithmetic on it
    gives \<^verbatim>\<open>NaN\<close>, which \<^verbatim>\<open>Math.max\<close> propagates and every comparison rejects;
  \<^item> \<^verbatim>\<open>Number.POSITIVE_INFINITY\<close>, the start value of \<^verbatim>\<open>minWait\<close>, is \<open>None\<close> of
    a \<open>real option\<close>.
\<close>

datatype jsnum = NaN | Num real

fun math_max :: "jsnum \<Rightarrow> jsnum \<Rightarrow> jsnum" where
  "math_max (Num a) (Num b) = Num (max a b)"
| "math_max _ _ = NaN"

text \<open>\<^verbatim>\<open>wait <= 0\<close>\<close>

fun le_zero :: "jsnum \<Rightarrow> bool" where
  "le_zero (Num w) = (w \<le> 0)"
| "le_zero NaN = False"

text \<open>\<^verbatim>\<open>if (wait < minWait) minWait = wait\<close>, with \<open>None\<close> for \<^verbatim>\<open>+Infinity\<close>\<close>

fun lower_minWait :: "jsnum \<Rightarrow> real option \<Rightarrow> real option" where
  "lower_minWait (Num w) None = Some w"
| "lower_minWait (Num w) (Some m) = (if w < m then Some w else Some m)"
| "lower_minWait NaN minWait = minWait"

text \<open>\<^verbatim>\<open>Math.max(1, Math.min(minWait, 5_000))\<close>\<close>

fun sleepMs :: "real option \<Rightarrow> real" where
  "sleepMs None = max 1 5000"
| "sleepMs (Some m) = max 1 (min m 5000)"

text \<open>Truthiness of an optional number (\<^verbatim>\<open>undefined\<close> and \<^verbatim>\<open>0\<close> are falsy).\<close>

fun truthy :: "real option \<Rightarrow> bool" where
  "truthy None = False"
| "truthy (Some n) = (n \<noteq> 0)"

text \<open>\<^verbatim>\<open>x || 0\<close> on an optional number\<close>

fun or_zero :: "real option \<Rightarrow> real" where
  "or_zero None = 0"
| "or_zero (Some n) = n"

text \<open>The one error the engine itself raises: calling a method a value does not have.\<close>

datatype js_error = TypeError


section \<open>The clock and the calendar\<close>

text \<open>
  The process environment: the reading of the system clock (\<^verbatim>\<open>Date.now()\<close>,
  \<^verbatim>\<open>new Date()\<close>) in epoch milliseconds, and the offset of the process's local time zone
  from UTC in milliseconds (local time = UTC + offset; a zone with a constant offset).
\<close>

record env =
  clock :: real
  tzOffsetMs :: real

definition msPerDay :: int where
  "msPerDay = 86400000"

text \<open>The day arithmetic of ECMAScript's Date objects (ECMA-262, 21.4.1).\<close>

definition Day :: "real \<Rightarrow> int" where
  "Day t = \<lfloor>t / of_int msPerDay\<rfloor>"

definition DayFromYear :: "int \<Rightarrow> int" where
  "DayFromYear y = 365 * (y - 1970) + (y - 1969) div 4 - (y - 1901) div 100 + (y - 1601) div 400"

definition InLeapYear :: "int \<Rightarrow> bool" where
  "InLeapYear y = (y mod 4 = 0 \<and> (y mod 400 = 0 \<or> y mod 100 \<noteq> 0))"

text \<open>
  The year of a day number: an estimate from the mean year length, corrected by one
  where the estimate falls on the wrong side of a year boundary.
\<close>

definition YearFromDay :: "int \<Rightarrow> int" where
  "YearFromDay d =
     (let y = 1970 + (d * 400) div 146097
      in if DayFromYear (y + 1) \<le> d then y + 1
         else if d < DayFromYear y then y - 1
         else y)"

definition YearFromTime :: "real \<Rightarrow> int" where
  "YearFromTime t = YearFromDay (Day t)"

text \<open>The number of days of a year before its month \<open>m\<close> (0 = January).\<close>

definition DaysBeforeMonth :: "int \<Rightarrow> int \<Rightarrow> int" where
  "DaysBeforeMonth y m =
     (let leap = (if InLeapYear y then 1 else 0)
      in if m = 0 then 0
         else if m = 1 then 31
         else if m = 2 then 59 + leap
         else if m = 3 then 90 + leap
         else if m = 4 then 120 + leap
         else if m = 5 then 151 + leap
         else if m = 6 then 181 + leap
         else if m = 7 then 212 + leap
         else if m = 8 then 243 + leap
         else if m = 9 then 273 + leap
         else if m = 10 then 304 + leap
         else 334 + leap)"

definition MonthFromTime :: "real \<Rightarrow> int" where
  "MonthFromTime t =
     (let y = YearFromTime t; d = Day t - DayFromYear y
      in if d < DaysBeforeMonth y 1 then 0
         else if d < DaysBeforeMonth y 2 then 1
         else if d < DaysBeforeMonth y 3 then 2
         else if d < DaysBeforeMonth y 4 then 3
         else if d < DaysBeforeMonth y 5 then 4
         else if d < DaysBeforeMonth y 6 then 5
         else if d < DaysBeforeMonth y 7 then 6
         else if d < DaysBeforeMonth y 8 then 7
         else if d < DaysBeforeMonth y 9 then 8
         else if d < DaysBeforeMonth y 10 then 9
         else if d < DaysBeforeMonth y 11 then 10
         else 11)"

text \<open>\<^verbatim>\<open>MakeDay(year, month, date)\<close>: a month number beyond 11 carries into the year.\<close>

definition MakeDay :: "int \<Rightarrow> int \<Rightarrow> int \<Rightarrow> int" where
  "MakeDay year month date =
     (let ym = year + month div 12; mn = month mod 12
      in DayFromYear ym + DaysBeforeMonth ym mn + date - 1)"

definition getUTCFullYear :: "real \<Rightarrow> int" where
  "getUTCFullYear t = YearFromTime t"

definition getUTCMonth :: "real \<Rightarrow> int" where
  "getUTCMonth t = MonthFromTime t"

text \<open>
  \<^verbatim>\<open>new Date(year, monthIndex, day).getTime()\<close>: the constructor with components reads
  them as LOCAL time (midnight of that local day), and a year from 0 to 99 as 1900 + year;
  the time value is the UTC instant of that local time.
\<close>

definition Date_local :: "env \<Rightarrow> int \<Rightarrow> int \<Rightarrow> int \<Rightarrow> real" where
  "Date_local e year monthIndex day =
     (let yr = (if 0 \<le> year \<and> year \<le> 99 then 1900 + year else year)
      in of_int (msPerDay * MakeDay yr monthIndex day) - tzOffsetMs e)"

text \<open>\<^verbatim>\<open>Date.UTC(year, monthIndex, day)\<close>: the same components read as UTC.\<close>

definition Date_UTC :: "int \<Rightarrow> int \<Rightarrow> int \<Rightarrow> real" where
  "Date_UTC year monthIndex day =
     (let yr = (if 0 \<le> year \<and> year \<le> 99 then 1900 + year else year)
      in of_int (msPerDay * MakeDay yr monthIndex day))"

text \<open>
  \<^verbatim>\<open>
  static startOfNextMonth(): number {
      const now = new Date();
      const next = new Date(now.getUTCFullYear(), now.getUTCMonth() + 1, 1);
      return next.getTime();
  }
  \<close>
\<close>

definition startOfNextMonth :: "env \<Rightarrow> real" where
  "startOfNextMonth e =
     (let now = clock e
      in Date_local e (getUTCFullYear now) (getUTCMonth now + 1) 1)"

text \<open>
  What the specification asks for: the first instant of the next calendar month of the
  UTC calendar.
\<close>

definition firstInstantOfNextUTCMonth :: "real \<Rightarrow> real" where
  "firstInstantOfNextUTCMonth t = Date_UTC (YearFromTime t) (MonthFromTime t + 1) 1"


section \<open>Data model\<close>

datatype LimitType = RPS | RPm | RPD | TPM | TPm | RPM

record RateLimitConfig =
  type :: LimitType
  limit :: real

record UsageBucket =
  secondWindowTimestamps :: "real list"
  minuteWindowTimestamps :: "real list"
  dayWindowTimestamps :: "real list"
  monthTokenCount :: real
  monthTokenResetAt :: real
  monthRequestCount :: real
  monthRequestResetAt :: real
  minuteTokenCount :: real
  minuteTokenWindowStart :: real

text \<open>
  \<^verbatim>\<open>modelLimits\<close> is a plain object (\<^verbatim>\<open>Record<string, RateLimitConfig[]>\<close>); the map holds
  its own properties.
\<close>

record QueuerOptions =
  defaultLimits :: "RateLimitConfig list option"
  modelLimits :: "(string \<rightharpoonup> RateLimitConfig list) option"
  fallbackDelayMs :: "real option"
  label :: "string option"

text \<open>The \<^verbatim>\<open>makeInitial\<close> factory of the constructor.\<close>

definition makeInitial :: "env \<Rightarrow> UsageBucket" where
  "makeInitial e =
     \<lparr> secondWindowTimestamps = [],
       minuteWindowTimestamps = [],
       dayWindowTimestamps = [],
       monthTokenCount = 0,
       monthTokenResetAt = startOfNextMonth e,
       monthRequestCount = 0,
       monthRequestResetAt = startOfNextMonth e,
       minuteTokenCount = 0,
       minuteTokenWindowStart = clock e \<rparr>"


section \<open>Usage strategies\<close>

text \<open>
  A \<^verbatim>\<open>Map<string, UsageBucket>\<close> is a partial function. \<^verbatim>\<open>getBucket\<close> returns a
  reference to the bucket object the map holds, and the queuer mutates that object in
  place; in the model \<^verbatim>\<open>getBucket\<close> returns the bucket's value together with the strategy
  (changed when the bucket had to be created), and \<open>mutateBucket\<close> stores the mutated
  value back under the same key, touching nothing else: an in-place mutation calls no
  method of the strategy.
\<close>

type_synonym recordId = nat

record pocketbaseState =
  pb_map :: "string \<rightharpoonup> UsageBucket"
  recordIds :: "string \<rightharpoonup> recordId"
  changed :: "string list"
  auth :: "string option"
  disposed :: bool
  pb_label :: "string option"

datatype UsageStrategy =
  RAMUsageStrategy "string \<rightharpoonup> UsageBucket"
| pocketbaseUsageStrategy pocketbaseState

text \<open>\<^verbatim>\<open>Set.add\<close>: a set that iterates in insertion order.\<close>

definition set_add :: "string \<Rightarrow> string list \<Rightarrow> string list" where
  "set_add k ks = (if k \<in> set ks then ks else ks @ [k])"

text \<open>\<^verbatim>\<open>this.label ? `${this.label}::${modelKey}` : modelKey\<close>\<close>

definition makeKey :: "string option \<Rightarrow> string \<Rightarrow> string" where
  "makeKey lbl modelKey =
     (case lbl of
        None \<Rightarrow> modelKey
      | Some l \<Rightarrow> if l = [] then modelKey else l @ ''::'' @ modelKey)"

fun getBucket :: "env \<Rightarrow> string \<Rightarrow> UsageStrategy \<Rightarrow> UsageBucket \<times> UsageStrategy" where
  "getBucket e modelKey (RAMUsageStrategy m) =
     (case m modelKey of
        Some u \<Rightarrow> (u, RAMUsageStrategy m)
      | None \<Rightarrow> (let u = makeInitial e in (u, RAMUsageStrategy (m(modelKey \<mapsto> u)))))"
| "getBucket e modelKey (pocketbaseUsageStrategy s) =
     (let key = makeKey (pb_label s) modelKey
      in case pb_map s key of
           Some u \<Rightarrow> (u, pocketbaseUsageStrategy s)
         | None \<Rightarrow>
             (let u = makeInitial e
              in (u, pocketbaseUsageStrategy
                       (s\<lparr>pb_map := (pb_map s)(key \<mapsto> u), changed := set_add key (changed s)\<rparr>))))"

fun setBucket :: "string \<Rightarrow> UsageBucket \<Rightarrow> UsageStrategy \<Rightarrow> UsageStrategy" where
  "setBucket modelKey bucket (RAMUsageStrategy m) = RAMUsageStrategy (m(modelKey \<mapsto> bucket))"
| "setBucket modelKey bucket (pocketbaseUsageStrategy s) =
     (let key = makeKey (pb_label s) modelKey
      in pocketbaseUsageStrategy
           (s\<lparr>pb_map := (pb_map s)(key \<mapsto> bucket), changed := set_add key (changed s)\<rparr>))"

fun mutateBucket :: "string \<Rightarrow> UsageBucket \<Rightarrow> UsageStrategy \<Rightarrow> UsageStrategy" where
  "mutateBucket modelKey bucket (RAMUsageStrategy m) = RAMUsageStrategy (m(modelKey \<mapsto> bucket))"
| "mutateBucket modelKey bucket (pocketbaseUsageStrategy s) =
     pocketbaseUsageStrategy (s\<lparr>pb_map := (pb_map s)(makeKey (pb_label s) modelKey \<mapsto> bucket)\<rparr>)"

text \<open>
  \<^verbatim>\<open>entries()\<close>, as the map from the plain model key to its bucket. The pocketbase
  strategy strips the label prefix; every key of its map carries the prefix (it is put
  there by \<^verbatim>\<open>makeKey\<close>, and the bootstrap keeps only records with it).
\<close>

fun entries :: "UsageStrategy \<Rightarrow> (string \<rightharpoonup> UsageBucket)" where
  "entries (RAMUsageStrategy m) = m"
| "entries (pocketbaseUsageStrategy s) = (\<lambda>plain. pb_map s (makeKey (pb_label s) plain))"


section \<open>The rate limiter\<close>

text \<open>
  \<^verbatim>\<open>while (xs.length && xs[0] <= oneSecAgo) xs.shift()\<close> drops the longest prefix of
  expired timestamps.
\<close>

definition pruneWindows :: "real \<Rightarrow> UsageBucket \<Rightarrow> UsageBucket" where
  "pruneWindows now usage =
     (let oneSecAgo = now - 1000; oneMinAgo = now - 60000; oneDayAgo = now - 86400000
      in usage\<lparr>
           secondWindowTimestamps := dropWhile (\<lambda>t. t \<le> oneSecAgo) (secondWindowTimestamps usage),
           minuteWindowTimestamps := dropWhile (\<lambda>t. t \<le> oneMinAgo) (minuteWindowTimestamps usage),
           dayWindowTimestamps := dropWhile (\<lambda>t. t \<le> oneDayAgo) (dayWindowTimestamps usage)\<rparr>)"

definition maybeResetMonthlyTokens :: "env \<Rightarrow> real \<Rightarrow> UsageBucket \<Rightarrow> UsageBucket" where
  "maybeResetMonthlyTokens e now usage =
     (if now \<ge> monthTokenResetAt usage
      then usage\<lparr>monthTokenCount := 0, monthTokenResetAt := startOfNextMonth e\<rparr>
      else usage)"

definition maybeResetMonthlyRequests :: "env \<Rightarrow> real \<Rightarrow> UsageBucket \<Rightarrow> UsageBucket" where
  "maybeResetMonthlyRequests e now usage =
     (if now \<ge> monthRequestResetAt usage
      then usage\<lparr>monthRequestCount := 0, monthRequestResetAt := startOfNextMonth e\<rparr>
      else usage)"

definition maybeResetMinuteTokens :: "real \<Rightarrow> UsageBucket \<Rightarrow> UsageBucket" where
  "maybeResetMinuteTokens now usage =
     (if now - minuteTokenWindowStart usage \<ge> 60000
      then usage\<lparr>minuteTokenCount := 0, minuteTokenWindowStart := now\<rparr>
      else usage)"

text \<open>
  \<^verbatim>\<open>ml[modelName]\<close> reads a property of a plain object: an own property when the object has
  one of that name, else the member of \<^verbatim>\<open>Object.prototype\<close> of that name. Those members are
  functions, and a function has a \<^verbatim>\<open>length\<close>, the number of its parameters (\<^verbatim>\<open>__proto__\<close>
  gives the prototype object itself, which has none).
\<close>

definition inheritedFunctionLength :: "string \<Rightarrow> nat option" where
  "inheritedFunctionLength name =
     (if name \<in> set [''constructor'', ''hasOwnProperty'', ''isPrototypeOf'', ''propertyIsEnumerable'',
                      ''__lookupGetter__'', ''__lookupSetter__'']
      then Some 1
      else if name \<in> set [''__defineGetter__'', ''__defineSetter__''] then Some 2
      else if name \<in> set [''toString'', ''toLocaleString'', ''valueOf''] then Some 0
      else None)"

text \<open>
  \<^verbatim>\<open>getActiveLimits\<close>: the default limits with the model's entries overriding those of
  the same type, followed by the model's entries of a type the defaults do not have;
  \<open>Inr None\<close> is \<^verbatim>\<open>undefined\<close>. The guard \<^verbatim>\<open>modelName && ml[modelName] && ml[modelName].length\<close>
  also lets through an inherited function with parameters; \<^verbatim>\<open>.filter\<close> (and \<^verbatim>\<open>.find\<close>, when
  there are default limits) is then called on a function, which throws a \<^verbatim>\<open>TypeError\<close>.
\<close>

definition getActiveLimits ::
  "QueuerOptions \<Rightarrow> string option \<Rightarrow> js_error + RateLimitConfig list option" where
  "getActiveLimits opts modelName =
     (let dl = (case defaultLimits opts of None \<Rightarrow> [] | Some d \<Rightarrow> d);
          ml = (case modelLimits opts of None \<Rightarrow> Map.empty | Some m \<Rightarrow> m);
          defaults = (if dl \<noteq> [] then Some dl else None)
      in case modelName of
           None \<Rightarrow> Inr defaults
         | Some n \<Rightarrow>
             if n = [] then Inr defaults
             else (case ml n of
                     Some modelSpecificLimits \<Rightarrow>
                       if modelSpecificLimits = [] then Inr defaults
                       else
                         (let combinedLimits =
                                map (\<lambda>defaultLimit.
                                       case find (\<lambda>modelLimit. type modelLimit = type defaultLimit)
                                              modelSpecificLimits of
                                         Some override \<Rightarrow> override
                                       | None \<Rightarrow> defaultLimit) dl
                          in Inr (Some (combinedLimits @
                                   filter (\<lambda>modelLimit.
                                             \<not> list_ex (\<lambda>defaultLimit. type defaultLimit = type modelLimit) dl)
                                     modelSpecificLimits)))
                   | None \<Rightarrow>
                       (case inheritedFunctionLength n of
                          Some len \<Rightarrow> if len \<noteq> 0 then Inl TypeError else Inr defaults
                        | None \<Rightarrow> Inr defaults)))"

text \<open>\<^verbatim>\<open>modelName || "__default__"\<close>: an absent and an empty model name are falsy.\<close>

definition bucketKey :: "string option \<Rightarrow> string" where
  "bucketKey modelName =
     (case modelName of
        None \<Rightarrow> ''__default__''
      | Some m \<Rightarrow> if m = [] then ''__default__'' else m)"

definition getUsageBucket :: "env \<Rightarrow> string option \<Rightarrow> UsageStrategy \<Rightarrow> UsageBucket \<times> UsageStrategy" where
  "getUsageBucket e modelName usage = getBucket e (bucketKey modelName) usage"

text \<open>\<^verbatim>\<open>W - (now - xs[0])\<close>; on an empty window \<^verbatim>\<open>xs[0]\<close> is \<^verbatim>\<open>undefined\<close>.\<close>

fun windowWait :: "real \<Rightarrow> real \<Rightarrow> real list \<Rightarrow> jsnum" where
  "windowWait W now [] = NaN"
| "windowWait W now (earliest # rest) = Num (W - (now - earliest))"

text \<open>
  The body of the loop over the active limits, which \<^verbatim>\<open>computeWaitMs\<close> and the
  estimator's \<^verbatim>\<open>computeWaitSim\<close> spell out in the same words.
\<close>

definition limitStep :: "real \<Rightarrow> real \<Rightarrow> UsageBucket \<Rightarrow> jsnum \<Rightarrow> RateLimitConfig \<Rightarrow> jsnum" where
  "limitStep now tokensNeeded usage waitMs l =
     (case type l of
        RPS \<Rightarrow>
          if of_nat (length (secondWindowTimestamps usage)) \<ge> limit l
          then math_max waitMs (windowWait 1000 now (secondWindowTimestamps usage))
          else waitMs
      | RPm \<Rightarrow>
          if of_nat (length (minuteWindowTimestamps usage)) \<ge> limit l
          then math_max waitMs (windowWait 60000 now (minuteWindowTimestamps usage))
          else waitMs
      | RPD \<Rightarrow>
          if of_nat (length (dayWindowTimestamps usage)) \<ge> limit l
          then math_max waitMs (windowWait 86400000 now (dayWindowTimestamps usage))
          else waitMs
      | TPM \<Rightarrow>
          if monthTokenCount usage + max 0 tokensNeeded > limit l
          then math_max waitMs (Num (monthTokenResetAt usage - now))
          else waitMs
      | RPM \<Rightarrow>
          if monthRequestCount usage + 1 > limit l
          then math_max waitMs (Num (monthRequestResetAt usage - now))
          else waitMs
      | TPm \<Rightarrow>
          (let windowAge = now - minuteTokenWindowStart usage
           in if windowAge \<ge> 60000 then waitMs
              else if minuteTokenCount usage + max 0 tokensNeeded > limit l
              then (let until = minuteTokenWindowStart usage + 60000
                    in math_max waitMs (Num (until - now)))
              else waitMs))"

text \<open>
  \<^verbatim>\<open>computeWaitMs\<close>: \<open>Inl\<close> when \<^verbatim>\<open>getActiveLimits\<close> throws, which is before the usage
  store is touched.
\<close>

definition computeWaitMs ::
  "env \<Rightarrow> QueuerOptions \<Rightarrow> real \<Rightarrow> string option \<Rightarrow> real \<Rightarrow> UsageStrategy
   \<Rightarrow> (js_error + jsnum) \<times> UsageStrategy" where
  "computeWaitMs e opts now modelName tokensNeeded store =
     (case getActiveLimits opts modelName of
        Inl err \<Rightarrow> (Inl err, store)
      | Inr None \<Rightarrow> (Inr (Num 0), store)
      | Inr (Some active) \<Rightarrow>
          if active = [] then (Inr (Num 0), store)
          else
            (let (usage0, store1) = getUsageBucket e modelName store;
                 usage1 = maybeResetMonthlyTokens e now usage0;
                 usage2 = maybeResetMonthlyRequests e now usage1;
                 usage3 = maybeResetMinuteTokens now usage2;
                 usage = pruneWindows now usage3;
                 waitMs = foldl (limitStep now tokensNeeded usage) (Num 0) active
             in (Inr (math_max (Num 0) waitMs), mutateBucket (bucketKey modelName) usage store1)))"

text \<open>
  \<^verbatim>\<open>recordUsage\<close>. The call \<^verbatim>\<open>void this.usage.persist(now)\<close> at its end starts an
  asynchronous flush, which does nothing before the caller has returned; it is the
  operation \<open>persist\<close> below.
\<close>

definition recordBucket :: "real \<Rightarrow> real \<Rightarrow> UsageBucket \<Rightarrow> UsageBucket" where
  "recordBucket now tokens usage0 =
     (let usage1 = usage0\<lparr>
            secondWindowTimestamps := secondWindowTimestamps usage0 @ [now],
            minuteWindowTimestamps := minuteWindowTimestamps usage0 @ [now],
            dayWindowTimestamps := dayWindowTimestamps usage0 @ [now]\<rparr>;
          usage2 = (if tokens > 0 then usage1\<lparr>monthTokenCount := monthTokenCount usage1 + tokens\<rparr>
                    else usage1);
          usage3 = usage2\<lparr>monthRequestCount := monthRequestCount usage2 + 1\<rparr>;
          usage4 = (if now - minuteTokenWindowStart usage3 \<ge> 60000
                    then usage3\<lparr>minuteTokenWindowStart := now, minuteTokenCount := 0\<rparr>
                    else usage3);
          usage5 = (if tokens > 0 then usage4\<lparr>minuteTokenCount := minuteTokenCount usage4 + tokens\<rparr>
                    else usage4)
      in pruneWindows now usage5)"

definition recordUsage :: "env \<Rightarrow> real \<Rightarrow> real \<Rightarrow> string option \<Rightarrow> UsageStrategy \<Rightarrow> UsageStrategy" where
  "recordUsage e now tokens modelName store =
     (let (usage, store1) = getUsageBucket e modelName store
      in mutateBucket (bucketKey modelName) (recordBucket now tokens usage) store1)"


section \<open>The admission table of the specification\<close>

text \<open>The four maintenance operations, in the order \<^verbatim>\<open>computeWaitMs\<close> applies them.\<close>

definition maintenance :: "env \<Rightarrow> real \<Rightarrow> UsageBucket \<Rightarrow> UsageBucket" where
  "maintenance e now usage =
     pruneWindows now
       (maybeResetMinuteTokens now
          (maybeResetMonthlyRequests e now
             (maybeResetMonthlyTokens e now usage)))"

definition slidingLimit :: "RateLimitConfig \<Rightarrow> bool" where
  "slidingLimit l = (type l = RPS \<or> type l = RPm \<or> type l = RPD)"

text \<open>The sliding window a limit type counts; the other types count no window.\<close>

definition windowOf :: "LimitType \<Rightarrow> UsageBucket \<Rightarrow> real list" where
  "windowOf ty b =
     (case ty of
        RPS \<Rightarrow> secondWindowTimestamps b
      | RPm \<Rightarrow> minuteWindowTimestamps b
      | RPD \<Rightarrow> dayWindowTimestamps b
      | TPM \<Rightarrow> []
      | TPm \<Rightarrow> []
      | RPM \<Rightarrow> [])"

text \<open>
  One row of the table: \<open>None\<close> when the limit does not trigger, else the wait it asks
  for. The table reads the first entry of a window (\<^verbatim>\<open>secondTs[0]\<close>), which is \<open>hd\<close>: a
  value only where the window has an entry.
\<close>

definition candidateWait :: "real \<Rightarrow> real \<Rightarrow> UsageBucket \<Rightarrow> RateLimitConfig \<Rightarrow> real option" where
  "candidateWait now tokensNeeded b l =
     (case type l of
        RPS \<Rightarrow> if limit l \<le> of_nat (length (secondWindowTimestamps b))
               then Some (1000 - (now - hd (secondWindowTimestamps b))) else None
      | RPm \<Rightarrow> if limit l \<le> of_nat (length (minuteWindowTimestamps b))
               then Some (60000 - (now - hd (minuteWindowTimestamps b))) else None
      | RPD \<Rightarrow> if limit l \<le> of_nat (length (dayWindowTimestamps b))
               then Some (86400000 - (now - hd (dayWindowTimestamps b))) else None
      | TPM \<Rightarrow> if limit l < monthTokenCount b + max 0 tokensNeeded
               then Some (monthTokenResetAt b - now) else None
      | RPM \<Rightarrow> if limit l < monthRequestCount b + 1
               then Some (monthRequestResetAt b - now) else None
      | TPm \<Rightarrow> if now - minuteTokenWindowStart b < 60000
                  \<and> limit l < minuteTokenCount b + max 0 tokensNeeded
               then Some (minuteTokenWindowStart b + 60000 - now) else None)"

definition candidates :: "real \<Rightarrow> real \<Rightarrow> UsageBucket \<Rightarrow> RateLimitConfig list \<Rightarrow> real list" where
  "candidates now tokensNeeded b limits = List.map_filter (candidateWait now tokensNeeded b) limits"


text \<open>
  Where the table has a value: no sliding-window limit that is 0 or less meets an empty
  window (such a limit triggers on the empty window, whose first entry the table would
  read).
\<close>

definition tableDefined :: "RateLimitConfig list \<Rightarrow> UsageBucket \<Rightarrow> bool" where
  "tableDefined limits b =
     list_all (\<lambda>l. \<not> (slidingLimit l \<and> limit l \<le> 0 \<and> windowOf (type l) b = [])) limits"

text \<open>
  The active limit set of a model, in the words of the specification: start from
  \<^verbatim>\<open>defaultLimits\<close>; for every entry in \<^verbatim>\<open>modelLimits[m]\<close> override the matching type; append
  any \<^verbatim>\<open>modelLimits[m]\<close> entries whose type was not present in the defaults. The mapping
  \<^verbatim>\<open>modelLimits\<close> holds the models that were given limits.
\<close>

definition activeLimitSet :: "QueuerOptions \<Rightarrow> string option \<Rightarrow> RateLimitConfig list" where
  "activeLimitSet opts m =
     (let dl = (case defaultLimits opts of None \<Rightarrow> [] | Some d \<Rightarrow> d);
          ml = (case (modelLimits opts, m) of
                  (Some lims, Some n) \<Rightarrow> (case lims n of None \<Rightarrow> [] | Some modelEntries \<Rightarrow> modelEntries)
                | _ \<Rightarrow> [])
      in foldl (\<lambda>acc entry. map (\<lambda>d. if type d = type entry then entry else d) acc) dl ml
         @ filter (\<lambda>entry. type entry \<notin> type ` set dl) ml)"


section \<open>The request queuer\<close>

text \<open>
  A thrown or rejected value is an \<^verbatim>\<open>Error\<close> instance (with its message) or any other
  JavaScript value (with its \<^verbatim>\<open>String(...)\<close> rendering).
\<close>

datatype thrown = ErrorObject string | OtherValue string

text \<open>\<^verbatim>\<open>error instanceof Error ? error : new Error(String(error))\<close>\<close>

fun toError :: "thrown \<Rightarrow> thrown" where
  "toError (ErrorObject msg) = ErrorObject msg"
| "toError (OtherValue rendering) = ErrorObject rendering"

datatype 'a outcome = Fulfilled 'a | Thrown thrown

text \<open>
  The \<^verbatim>\<open>execute\<close> closure of an item is a call to an external provider: called at a clock
  reading, it settles with an outcome at a later clock reading (the second component).
\<close>

record 'a QueueItem =
  item_id :: string
  execute :: "real \<Rightarrow> 'a outcome \<times> real"
  tokens :: "real option"
  modelName :: "string option"

record 'a Queuer =
  queue :: "'a QueueItem list"
  usage :: UsageStrategy
  isProcessing :: bool

text \<open>
  What a run of the dispatch loop does to the outside: it sleeps (\<^verbatim>\<open>await this.delay(ms)\<close>),
  settles the future of an item, and starts a flush of the usage store
  (\<^verbatim>\<open>void this.usage.persist(t)\<close>).
\<close>

datatype 'a event =
  Delay real
| Resolve string 'a
| Reject string thrown
| PersistCall real

text \<open>
  The scan of one iteration: the index of the first item whose wait is \<^verbatim>\<open><= 0\<close>
  (\<open>NoneRunnable\<close> for \<^verbatim>\<open>runnableIndex === -1\<close>) and the smallest wait seen before it.
  A \<^verbatim>\<open>computeWaitMs\<close> that throws ends the scan.
\<close>

datatype scanned = Runnable nat | NoneRunnable | ScanThrew js_error

fun scanQueue ::
  "env \<Rightarrow> QueuerOptions \<Rightarrow> real \<Rightarrow> 'a QueueItem list \<Rightarrow> nat \<Rightarrow> real option \<Rightarrow> UsageStrategy
   \<Rightarrow> (scanned \<times> real option) \<times> UsageStrategy" where
  "scanQueue e opts now [] i minWait store = ((NoneRunnable, minWait), store)"
| "scanQueue e opts now (qi # rest) i minWait store =
     (let (wait, store1) = computeWaitMs e opts now (modelName qi) (or_zero (tokens qi)) store
      in case wait of
           Inl err \<Rightarrow> ((ScanThrew err, minWait), store1)
         | Inr w \<Rightarrow>
             if le_zero w then ((Runnable i, minWait), store1)
             else scanQueue e opts now rest (Suc i) (lower_minWait w minWait) store1)"

text \<open>\<^verbatim>\<open>this.queue.splice(runnableIndex, 1)\<close>\<close>

definition splice1 :: "nat \<Rightarrow> 'a list \<Rightarrow> 'a list" where
  "splice1 i xs = take i xs @ drop (Suc i) xs"

text \<open>
  The execution of the selected item: on success the future is resolved, the usage is
  recorded at the completion time and two flushes are started (one by \<^verbatim>\<open>recordUsage\<close>,
  one by the loop); on failure the future is rejected. The result carries the clock
  reading at which the item settled. The moving average of the execution time, which
  the \<^verbatim>\<open>finally\<close> block updates on both paths, is not part of the state: the estimator
  takes its value as an argument.
\<close>

definition dispatch ::
  "env \<Rightarrow> 'a QueueItem \<Rightarrow> UsageStrategy \<Rightarrow> 'a event list \<times> UsageStrategy \<times> real" where
  "dispatch e item store =
     (let start = clock e
      in case execute item start of
           (Fulfilled result, end) \<Rightarrow>
             ([Resolve (item_id item) result, PersistCall end, PersistCall end],
              recordUsage (e\<lparr>clock := end\<rparr>) end (or_zero (tokens item)) (modelName item) store,
              end)
         | (Thrown error, end) \<Rightarrow>
             ([Reject (item_id item) (toError error)], store, end))"

text \<open>
  One iteration of the \<^verbatim>\<open>while\<close> loop of \<^verbatim>\<open>processQueue\<close>, on a non-empty queue. A
  timer fires when its delay has passed, so a sleep moves the clock by its delay. The
  last component is the error that left the loop, when the scan threw.
\<close>

definition iteration ::
  "env \<Rightarrow> QueuerOptions \<Rightarrow> 'a Queuer \<Rightarrow> 'a event list \<times> 'a Queuer \<times> env \<times> js_error option" where
  "iteration e opts st =
     (let now = clock e;
          ((found, minWait), store1) = scanQueue e opts now (queue st) 0 None (usage st)
      in case found of
           ScanThrew err \<Rightarrow> ([], st\<lparr>usage := store1\<rparr>, e, Some err)
         | NoneRunnable \<Rightarrow>
             (let ms = sleepMs minWait
              in ([Delay ms], st\<lparr>usage := store1\<rparr>, e\<lparr>clock := clock e + ms\<rparr>, None))
         | Runnable i \<Rightarrow>
             (let item = queue st ! i;
                  rest = splice1 i (queue st);
                  (events, store2, end) = dispatch e item store1;
                  st2 = st\<lparr>queue := rest, usage := store2\<rparr>
              in if truthy (fallbackDelayMs opts) \<and> rest \<noteq> []
                 then (events @ [Delay (or_zero (fallbackDelayMs opts))], st2,
                       e\<lparr>clock := end + max 0 (or_zero (fallbackDelayMs opts))\<rparr>, None)
                 else (events, st2, e\<lparr>clock := end\<rparr>, None)))"

text \<open>
  The \<^verbatim>\<open>while (this.queue.length > 0)\<close> loop: it ends when the queue is empty, or with
  the error a scan threw; \<open>None\<close> when the fuel runs out.
\<close>

fun dispatchLoop ::
  "nat \<Rightarrow> env \<Rightarrow> QueuerOptions \<Rightarrow> 'a Queuer
   \<Rightarrow> ('a event list \<times> 'a Queuer \<times> env \<times> js_error option) option" where
  "dispatchLoop 0 e opts st = None"
| "dispatchLoop (Suc fuel) e opts st =
     (if queue st = [] then Some ([], st, e, None)
      else (let (events, st1, e1, thrown) = iteration e opts st
            in case thrown of
                 Some err \<Rightarrow> Some (events, st1, e1, Some err)
               | None \<Rightarrow>
                   (case dispatchLoop fuel e1 opts st1 of
                      None \<Rightarrow> None
                    | Some (later, st2, e2, exit) \<Rightarrow> Some (events @ later, st2, e2, exit))))"

text \<open>\<^verbatim>\<open>processQueue\<close>: the \<^verbatim>\<open>finally\<close> block clears the flag on both ways out.\<close>

definition processQueue ::
  "nat \<Rightarrow> env \<Rightarrow> QueuerOptions \<Rightarrow> 'a Queuer
   \<Rightarrow> ('a event list \<times> 'a Queuer \<times> env \<times> js_error option) option" where
  "processQueue fuel e opts st =
     (if isProcessing st then Some ([], st, e, None)
      else (case dispatchLoop fuel e opts (st\<lparr>isProcessing := True\<rparr>) of
              None \<Rightarrow> None
            | Some (events, st1, e1, exit) \<Rightarrow> Some (events, st1\<lparr>isProcessing := False\<rparr>, e1, exit)))"

text \<open>
  \<^verbatim>\<open>add\<close>, up to the call of \<^verbatim>\<open>processQueue\<close>: the fast path, which calls the closure at
  once and touches neither the queue nor the usage store; or the queuer with the new item
  at the tail; or, when \<^verbatim>\<open>getActiveLimits\<close> throws, a rejected promise, the closure not
  called and nothing enqueued. The token estimator and the fresh id are the caller's.
\<close>

datatype 'a added = Immediate "'a outcome \<times> real" | Enqueued "'a Queuer" | AddRejected js_error

definition add ::
  "(string \<Rightarrow> real) \<Rightarrow> string \<Rightarrow> env \<Rightarrow> QueuerOptions \<Rightarrow> (real \<Rightarrow> 'a outcome \<times> real)
   \<Rightarrow> string option \<Rightarrow> string option \<Rightarrow> 'a Queuer \<Rightarrow> 'a added" where
  "add estimateTokenCount newId e opts executeFunction tokenEstimateText m st =
     (let toks = (case tokenEstimateText of
                    None \<Rightarrow> None
                  | Some text \<Rightarrow> if text = [] then None else Some (estimateTokenCount text))
      in case getActiveLimits opts m of
           Inl err \<Rightarrow> AddRejected err
         | Inr activeLimits \<Rightarrow>
             if (activeLimits = None \<or> activeLimits = Some []) \<and> \<not> truthy (fallbackDelayMs opts)
             then Immediate (executeFunction (clock e))
             else Enqueued (st\<lparr>queue := queue st @
                     [\<lparr>item_id = newId, execute = executeFunction, tokens = toks, modelName = m\<rparr>]\<rparr>))"


section \<open>The wait estimator\<close>

record SimItem =
  simModelName :: "string option"
  simTokens :: real
  hypothetical :: bool

definition getBucketSim ::
  "env \<Rightarrow> real \<Rightarrow> string option \<Rightarrow> (string \<rightharpoonup> UsageBucket) \<Rightarrow> UsageBucket \<times> (string \<rightharpoonup> UsageBucket)" where
  "getBucketSim e now m usageSim =
     (let key = bucketKey m
      in case usageSim key of
           Some b \<Rightarrow> (b, usageSim)
         | None \<Rightarrow>
             (let b = \<lparr> secondWindowTimestamps = [],
                        minuteWindowTimestamps = [],
                        dayWindowTimestamps = [],
                        monthTokenCount = 0,
                        monthTokenResetAt = startOfNextMonth e,
                        monthRequestCount = 0,
                        monthRequestResetAt = startOfNextMonth e,
                        minuteTokenCount = 0,
                        minuteTokenWindowStart = now \<rparr>
              in (b, usageSim(key \<mapsto> b))))"

text \<open>
  \<^verbatim>\<open>computeWaitSim\<close>: the helper \<^verbatim>\<open>maybeResetMinuteTokensSim\<close> is declared beside the other
  three and never called.
\<close>

definition computeWaitSim ::
  "env \<Rightarrow> QueuerOptions \<Rightarrow> real \<Rightarrow> real \<Rightarrow> string option \<Rightarrow> real \<Rightarrow> (string \<rightharpoonup> UsageBucket)
   \<Rightarrow> (js_error + jsnum) \<times> (string \<rightharpoonup> UsageBucket)" where
  "computeWaitSim e opts now t m toks usageSim =
     (case getActiveLimits opts m of
        Inl err \<Rightarrow> (Inl err, usageSim)
      | Inr None \<Rightarrow> (Inr (Num 0), usageSim)
      | Inr (Some limits) \<Rightarrow>
          if limits = [] then (Inr (Num 0), usageSim)
          else
            (let (usage0, sim1) = getBucketSim e now m usageSim;
                 usage1 = maybeResetMonthlyTokens e t usage0;
                 usage2 = maybeResetMonthlyRequests e t usage1;
                 usage = pruneWindows t usage2;
                 waitMs = foldl (limitStep t toks usage) (Num 0) limits
             in (Inr (math_max (Num 0) waitMs), sim1(bucketKey m \<mapsto> usage))))"

definition recordUsageSim ::
  "env \<Rightarrow> real \<Rightarrow> real \<Rightarrow> real \<Rightarrow> string option \<Rightarrow> (string \<rightharpoonup> UsageBucket) \<Rightarrow> (string \<rightharpoonup> UsageBucket)" where
  "recordUsageSim e now t toks m usageSim =
     (let (usage0, sim1) = getBucketSim e now m usageSim
      in sim1(bucketKey m \<mapsto> recordBucket t toks usage0))"

fun scanSim ::
  "env \<Rightarrow> QueuerOptions \<Rightarrow> real \<Rightarrow> real \<Rightarrow> SimItem list \<Rightarrow> nat \<Rightarrow> real option \<Rightarrow> (string \<rightharpoonup> UsageBucket)
   \<Rightarrow> (scanned \<times> real option) \<times> (string \<rightharpoonup> UsageBucket)" where
  "scanSim e opts now tCursor [] i minWait usageSim = ((NoneRunnable, minWait), usageSim)"
| "scanSim e opts now tCursor (item # rest) i minWait usageSim =
     (let (wait, sim1) = computeWaitSim e opts now tCursor (simModelName item) (simTokens item) usageSim
      in case wait of
           Inl err \<Rightarrow> ((ScanThrew err, minWait), sim1)
         | Inr w \<Rightarrow>
             if le_zero w then ((Runnable i, minWait), sim1)
             else scanSim e opts now tCursor rest (Suc i) (lower_minWait w minWait) sim1)"

text \<open>
  The \<^verbatim>\<open>while (simQueue.length)\<close> loop: \<open>Some (Inr ms)\<close> when it returns, \<open>Some (Inl err)\<close>
  when it throws, \<open>None\<close> when the fuel runs out.
\<close>

fun simLoop ::
  "nat \<Rightarrow> env \<Rightarrow> QueuerOptions \<Rightarrow> real \<Rightarrow> real \<Rightarrow> real \<Rightarrow> (string \<rightharpoonup> UsageBucket) \<Rightarrow> SimItem list
   \<Rightarrow> (js_error + real) option" where
  "simLoop 0 e opts now perItemExecMs tCursor usageSim simQueue = None"
| "simLoop (Suc fuel) e opts now perItemExecMs tCursor usageSim simQueue =
     (if simQueue = [] then Some (Inr 0)
      else
        (let ((found, minWait), sim1) =
               scanSim e opts now tCursor simQueue 0 None usageSim
         in case found of
              ScanThrew err \<Rightarrow> Some (Inl err)
            | NoneRunnable \<Rightarrow>
                (let advance = sleepMs minWait
                 in simLoop fuel e opts now perItemExecMs (tCursor + advance) sim1 simQueue)
            | Runnable i \<Rightarrow>
                (let next = simQueue ! i;
                     rest = splice1 i simQueue
                 in if hypothetical next then Some (Inr (max 0 (tCursor - now)))
                    else
                      (let sim2 = recordUsageSim e now tCursor (simTokens next) (simModelName next) sim1;
                           t1 = tCursor + max 0 perItemExecMs;
                           t2 = (if truthy (fallbackDelayMs opts) \<and> rest \<noteq> []
                                 then t1 + or_zero (fallbackDelayMs opts) else t1)
                       in simLoop fuel e opts now perItemExecMs t2 sim2 rest))))"

text \<open>
  \<^verbatim>\<open>estimateWaitMs\<close>. \<open>perItemExecMs\<close> is the value of \<^verbatim>\<open>getEstimatedExecMs()\<close>, the
  moving average of the execution time (500 before the first sample, any number after).
\<close>

definition estimateWaitMs ::
  "nat \<Rightarrow> env \<Rightarrow> QueuerOptions \<Rightarrow> real \<Rightarrow> 'a QueueItem list \<Rightarrow> UsageStrategy \<Rightarrow> string option \<Rightarrow> real
   \<Rightarrow> (js_error + real) option" where
  "estimateWaitMs fuel e opts perItemExecMs pending store m tokensNeeded =
     (let now = clock e
      in case getActiveLimits opts m of
           Inl err \<Rightarrow> Some (Inl err)
         | Inr activeForThis \<Rightarrow>
             if (activeForThis = None \<or> activeForThis = Some []) \<and> \<not> truthy (fallbackDelayMs opts)
             then Some (Inr 0)
             else
               (let usageSim = entries store;
                    simQueue =
                      map (\<lambda>q. \<lparr>simModelName = modelName q, simTokens = or_zero (tokens q),
                                  hypothetical = False\<rparr>) pending
                      @ [\<lparr>simModelName = m, simTokens = max 0 tokensNeeded, hypothetical = True\<rparr>]
                in simLoop fuel e opts now perItemExecMs now usageSim simQueue))"


section \<open>Flushing the pocketbase strategy\<close>

text \<open>
  The remote record store is an external service; its part in a flush is the answer
  to three requests. The model of the service: it holds records (id, key, data); a request
  fails to reach it when it is not \<open>online\<close> (\<^verbatim>\<open>fetch\<close> throws); the authentication
  request is answered with a token when the credentials are accepted; a \<^verbatim>\<open>PATCH\<close> of a
  record is answered \<^verbatim>\<open>ok\<close> when the store accepts writes and holds a record of that
  id, a \<^verbatim>\<open>POST\<close> when the store accepts writes, and then creates a record under a fresh
  id.
\<close>

record remote =
  records :: "(recordId \<times> string \<times> UsageBucket) list"
  online :: bool
  credentialsOk :: bool
  issuedToken :: string
  writable :: bool
  nextId :: recordId

datatype pb_error = FetchFailed | AuthFailed | MissingToken

datatype pb_log = PersistErrorFor string | CreateFailed

text \<open>\<^verbatim>\<open>ensureAuth\<close>: a cached token is kept; else the token is asked for, and every failure throws.\<close>

definition ensureAuth :: "remote \<Rightarrow> pocketbaseState \<Rightarrow> pb_error + pocketbaseState" where
  "ensureAuth r s =
     (if (case auth s of None \<Rightarrow> False | Some token \<Rightarrow> token \<noteq> []) then Inr s
      else if \<not> online r then Inl FetchFailed
      else if \<not> credentialsOk r then Inl AuthFailed
      else if issuedToken r = [] then Inl MissingToken
      else Inr (s\<lparr>auth := Some (issuedToken r)\<rparr>))"

text \<open>
  \<^verbatim>\<open>createRecord\<close>: \<open>Inl\<close> when \<^verbatim>\<open>fetch\<close> throws; a refused \<^verbatim>\<open>POST\<close> is logged there and
  does not throw.
\<close>

definition createRecord ::
  "string \<Rightarrow> UsageBucket \<Rightarrow> pb_log list \<times> pocketbaseState \<times> remote
   \<Rightarrow> pb_error + (pb_log list \<times> pocketbaseState \<times> remote)" where
  "createRecord key bucket st =
     (case st of (logs, s, r) \<Rightarrow>
        if \<not> online r then Inl FetchFailed
        else if writable r
        then Inr (logs,
                  s\<lparr>recordIds := (recordIds s)(key \<mapsto> nextId r)\<rparr>,
                  r\<lparr>records := records r @ [(nextId r, key, bucket)], nextId := Suc (nextId r)\<rparr>)
        else Inr (logs @ [CreateFailed], s, r))"

text \<open>The body of the loop of \<^verbatim>\<open>persist\<close> over the keys to flush, with its \<^verbatim>\<open>try/catch\<close>.\<close>

definition persistKey ::
  "pb_log list \<times> pocketbaseState \<times> remote \<Rightarrow> string \<Rightarrow> pb_log list \<times> pocketbaseState \<times> remote" where
  "persistKey st key =
     (case st of (logs, s, r) \<Rightarrow>
        (case pb_map s key of
           None \<Rightarrow> st
         | Some bucket \<Rightarrow>
             (let attempt =
                    (case recordIds s key of
                       Some recId \<Rightarrow>
                         if \<not> online r then Inl FetchFailed
                         else if writable r \<and> recId \<in> fst ` set (records r)
                         then Inr (logs, s,
                                   r\<lparr>records := map (\<lambda>rec. if fst rec = recId then (recId, key, bucket) else rec)
                                                    (records r)\<rparr>)
                         else createRecord key bucket st
                     | None \<Rightarrow> createRecord key bucket st)
              in case attempt of
                   Inr st' \<Rightarrow> st'
                 | Inl err \<Rightarrow> (logs @ [PersistErrorFor key], s, r))))"

text \<open>
  \<^verbatim>\<open>persist\<close>: \<open>Inl\<close> when the returned promise rejects (the callers swallow it:
  \<^verbatim>\<open>.catch(() => {})\<close> in the queuer, \<^verbatim>\<open>.catch((e) => console.error(...))\<close> on the timer).
\<close>

definition persist ::
  "remote \<Rightarrow> pocketbaseState \<Rightarrow> (pb_error + unit) \<times> pb_log list \<times> pocketbaseState \<times> remote" where
  "persist r s =
     (if disposed s then (Inr (), [], s, r)
      else case ensureAuth r s of
             Inl err \<Rightarrow> (Inl err, [], s, r)
           | Inr s1 \<Rightarrow>
               (let toPersist = changed s1;
                    s2 = s1\<lparr>changed := []\<rparr>
                in (Inr (), foldl persistKey ([], s2, r) toPersist)))"


section \<open>Scenarios\<close>

text \<open>
  A queuer with a default limit of one request per second and 100 tokens per minute,
  at 2024-01-31T23:30:00Z in a UTC process; its default bucket holds one request of
  half a second ago and 95 tokens in a minute window that started ten seconds ago.
\<close>

definition exampleEnv :: env where
  "exampleEnv = \<lparr>clock = 1706743800000, tzOffsetMs = 0\<rparr>"

definition exampleOpts :: QueuerOptions where
  "exampleOpts =
     \<lparr>defaultLimits = Some [\<lparr>type = RPS, limit = 1\<rparr>, \<lparr>type = TPm, limit = 100\<rparr>],
      modelLimits = Some [''fast'' \<mapsto> [\<lparr>type = RPS, limit = 100\<rparr>, \<lparr>type = RPM, limit = 5\<rparr>]],
      fallbackDelayMs = None,
      label = None\<rparr>"

definition exampleBucket :: UsageBucket where
  "exampleBucket =
     (makeInitial exampleEnv)\<lparr>
        secondWindowTimestamps := [1706743799500],
        minuteWindowTimestamps := [1706743799500],
        dayWindowTimestamps := [1706743799500],
        monthTokenCount := 95,
        monthRequestCount := 1,
        minuteTokenCount := 95,
        minuteTokenWindowStart := 1706743790000\<rparr>"

definition exampleStore :: UsageStrategy where
  "exampleStore = RAMUsageStrategy [''__default__'' \<mapsto> exampleBucket]"

text \<open>
  The same instant in a process whose local time is two hours ahead of UTC.
\<close>

definition helsinkiEnv :: env where
  "helsinkiEnv = \<lparr>clock = 1706743800000, tzOffsetMs = 7200000\<rparr>"

text \<open>
  A queuer whose only limit is 100 tokens per minute; its default bucket holds 90
  tokens in a minute window that started 70 seconds ago.
\<close>

definition tpmOpts :: QueuerOptions where
  "tpmOpts =
     \<lparr>defaultLimits = Some [\<lparr>type = TPm, limit = 100\<rparr>],
      modelLimits = None,
      fallbackDelayMs = None,
      label = None\<rparr>"

definition staleBucket :: UsageBucket where
  "staleBucket =
     (makeInitial exampleEnv)\<lparr>minuteTokenCount := 90, minuteTokenWindowStart := 1706743730000\<rparr>"

definition tokenWindow :: "UsageBucket option \<Rightarrow> (real \<times> real) option" where
  "tokenWindow = map_option (\<lambda>b. (minuteTokenCount b, minuteTokenWindowStart b))"

text \<open>
  A queuer with no default limits and no fallback delay, with limits for the model
  \<^verbatim>\<open>fast\<close> only, and two pending items.
\<close>

definition noDefaultOpts :: QueuerOptions where
  "noDefaultOpts =
     \<lparr>defaultLimits = None,
      modelLimits = Some [''fast'' \<mapsto> [\<lparr>type = RPS, limit = 1\<rparr>]],
      fallbackDelayMs = None,
      label = None\<rparr>"

definition okItem :: "string \<Rightarrow> string option \<Rightarrow> real option \<Rightarrow> unit QueueItem" where
  "okItem name m toks =
     \<lparr>item_id = name, execute = (\<lambda>t. (Fulfilled (), t + 250)), tokens = toks, modelName = m\<rparr>"

definition failingItem :: "string \<Rightarrow> string option \<Rightarrow> thrown \<Rightarrow> unit QueueItem" where
  "failingItem name m err =
     \<lparr>item_id = name, execute = (\<lambda>t. (Thrown err, t + 40)), tokens = Some 7, modelName = m\<rparr>"

definition idleQueuer :: "unit Queuer" where
  "idleQueuer = \<lparr>queue = [], usage = exampleStore, isProcessing = False\<rparr>"

text \<open>
  A pocketbase strategy of the queue labelled \<^verbatim>\<open>q1\<close> after its bootstrap: the bucket of
  model \<^verbatim>\<open>m\<close> was loaded from the remote record 7 with \<^verbatim>\<open>monthRequestCount\<close> 10, nothing is
  dirty, and the remote store answers every request. One item for \<^verbatim>\<open>m\<close> is pending, and
  \<open>afterDispatch\<close> is the strategy after the iteration of the dispatch loop that runs it.
\<close>

definition seededBucket :: UsageBucket where
  "seededBucket = (makeInitial exampleEnv)\<lparr>monthRequestCount := 10\<rparr>"

definition seededState :: pocketbaseState where
  "seededState =
     \<lparr>pb_map = [''q1::m'' \<mapsto> seededBucket],
      recordIds = [''q1::m'' \<mapsto> 7],
      changed = [],
      auth = Some ''token'',
      disposed = False,
      pb_label = Some ''q1''\<rparr>"

definition seededRemote :: remote where
  "seededRemote =
     \<lparr>records = [(7, ''q1::m'', seededBucket)],
      online = True,
      credentialsOk = True,
      issuedToken = ''token'',
      writable = True,
      nextId = 8\<rparr>"

fun pocketbaseOf :: "UsageStrategy \<Rightarrow> pocketbaseState option" where
  "pocketbaseOf (pocketbaseUsageStrategy s) = Some s"
| "pocketbaseOf (RAMUsageStrategy m) = None"

definition seededQueuer :: "unit Queuer" where
  "seededQueuer =
     \<lparr>queue = [okItem ''i1'' (Some ''m'') None],
      usage = pocketbaseUsageStrategy seededState,
      isProcessing = True\<rparr>"

definition afterDispatch :: "pocketbaseState option" where
  "afterDispatch = pocketbaseOf (usage (fst (snd (iteration exampleEnv exampleOpts seededQueuer))))"

definition requestCounts :: "remote \<Rightarrow> (recordId \<times> string \<times> real) list" where
  "requestCounts r = map (\<lambda>(i, key, b). (i, key, monthRequestCount b)) (records r)"

text \<open>
  A running queuer with two pending items for the model \<^verbatim>\<open>fast\<close>, the first of which
  fails.
\<close>

definition failingQueuer :: "thrown \<Rightarrow> unit Queuer" where
  "failingQueuer err =
     \<lparr>queue = [failingItem ''i2'' (Some ''fast'') err, okItem ''i3'' (Some ''fast'') None],
      usage = exampleStore,
      isProcessing = True\<rparr>"

text \<open>
  The pocketbase strategy with the bucket of model \<^verbatim>\<open>m\<close> at 11 requests and marked dirty;
  a remote store that refuses writes, and one that cannot be reached.
\<close>

definition dirtyState :: pocketbaseState where
  "dirtyState =
     seededState\<lparr>pb_map := [''q1::m'' \<mapsto> seededBucket\<lparr>monthRequestCount := 11\<rparr>],
                 changed := [''q1::m'']\<rparr>"

definition readOnlyRemote :: remote where
  "readOnlyRemote = seededRemote\<lparr>writable := False\<rparr>"

definition offlineRemote :: remote where
  "offlineRemote = seededRemote\<lparr>online := False\<rparr>"

text \<open>
  What a flush logs when no write succeeds: one entry for every dirty key that has a
  bucket, from the \<^verbatim>\<open>catch\<close> of \<^verbatim>\<open>persist\<close> when the request did not reach the store and
  from \<^verbatim>\<open>createRecord\<close> when the store refused it.
\<close>

definition failureLog :: "remote \<Rightarrow> pocketbaseState \<Rightarrow> string list \<Rightarrow> pb_log list" where
  "failureLog r s keys =
     concat (map (\<lambda>key. case pb_map s key of
                           None \<Rightarrow> []
                         | Some bucket \<Rightarrow> [if online r then CreateFailed else PersistErrorFor key])
               keys)"

text \<open>
  Head of the line: the model \<^verbatim>\<open>slow\<close> (default limits) has used its one request of this
  second, the model \<^verbatim>\<open>fast\<close> has not been used. A running queuer with an item for
  \<^verbatim>\<open>slow\<close> followed by an item for \<^verbatim>\<open>fast\<close>, and one with two items for \<^verbatim>\<open>slow\<close>.
\<close>

definition slowBusyStore :: UsageStrategy where
  "slowBusyStore = RAMUsageStrategy [''slow'' \<mapsto> exampleBucket]"

definition headOfLineQueuer :: "unit Queuer" where
  "headOfLineQueuer =
     \<lparr>queue = [okItem ''s1'' (Some ''slow'') None, okItem ''f1'' (Some ''fast'') None],
      usage = slowBusyStore,
      isProcessing = True\<rparr>"

definition blockedQueuer :: "unit Queuer" where
  "blockedQueuer =
     \<lparr>queue = [okItem ''s1'' (Some ''slow'') None, okItem ''s2'' (Some ''slow'') (Some 10)],
      usage = slowBusyStore,
      isProcessing = True\<rparr>"

text \<open>
  The bounds of the sleep: a running queuer whose only item, for \<^verbatim>\<open>slow\<close>, asks for 10
  tokens where 5 are left in a minute window that ends in 50 seconds; and one whose only
  item waits for a request of 999.5 ms ago to leave the second window.
\<close>

definition cappedQueuer :: "unit Queuer" where
  "cappedQueuer =
     \<lparr>queue = [okItem ''s2'' (Some ''slow'') (Some 10)],
      usage = slowBusyStore,
      isProcessing = True\<rparr>"

definition nearlyFreeQueuer :: "unit Queuer" where
  "nearlyFreeQueuer =
     \<lparr>queue = [okItem ''s1'' (Some ''slow'') None],
      usage = RAMUsageStrategy
        [''slow'' \<mapsto> exampleBucket\<lparr>secondWindowTimestamps := [1706743799000.5]\<rparr>],
      isProcessing = True\<rparr>"

text \<open>What a run of the dispatch loop leaves: its events, the ids still queued, the clock, the error.\<close>

definition runSummary ::
  "('a event list \<times> 'a Queuer \<times> env \<times> js_error option) option
   \<Rightarrow> ('a event list \<times> string list \<times> real \<times> js_error option) option" where
  "runSummary = map_option (\<lambda>(events, st, e, exit). (events, map item_id (queue st), clock e, exit))"







text \<open>
  A queuer configured with a negative fallback delay, and a limit of 100 tokens per
  minute for the model \<^verbatim>\<open>h\<close>, which has used 90 of them in a window that ends in a second.
\<close>

definition hastyOpts :: QueuerOptions where
  "hastyOpts =
     \<lparr>defaultLimits = None,
      modelLimits = Some [''h'' \<mapsto> [\<lparr>type = TPm, limit = 100\<rparr>]],
      fallbackDelayMs = Some (- 100000),
      label = None\<rparr>"

definition hastyStore :: UsageStrategy where
  "hastyStore = RAMUsageStrategy
     [''h'' \<mapsto> (makeInitial exampleEnv)\<lparr>minuteTokenCount := 90, minuteTokenWindowStart := 1706743741000\<rparr>]"



section \<open>Views of the usage store and of the scan\<close>

text \<open>The bucket a key stands for: the stored one, or the fresh one a miss would create.\<close>

definition bucketOf :: "env \<Rightarrow> string \<Rightarrow> UsageStrategy \<Rightarrow> UsageBucket" where
  "bucketOf e key store = fst (getBucket e key store)"

text \<open>The limits \<^verbatim>\<open>getActiveLimits\<close> returns, \<^verbatim>\<open>undefined\<close> read as no limit.\<close>

fun limitsOf :: "js_error + RateLimitConfig list option \<Rightarrow> RateLimitConfig list" where
  "limitsOf (Inr (Some active)) = active"
| "limitsOf (Inr None) = []"
| "limitsOf (Inl err) = []"

text \<open>
  The wait of a queued item under its own model's active limits and its own token
  estimate, on a given usage store.
\<close>

definition itemWait ::
  "env \<Rightarrow> QueuerOptions \<Rightarrow> real \<Rightarrow> UsageStrategy \<Rightarrow> 'a QueueItem \<Rightarrow> js_error + jsnum" where
  "itemWait e opts now store qi = fst (computeWaitMs e opts now (modelName qi) (or_zero (tokens qi)) store)"

text \<open>The waits that are numbers.\<close>

fun numbers :: "(js_error + jsnum) list \<Rightarrow> real list" where
  "numbers [] = []"
| "numbers (Inr (Num w) # ws) = w # numbers ws"
| "numbers (Inr NaN # ws) = numbers ws"
| "numbers (Inl err # ws) = numbers ws"

text \<open>The minimum of the waits that are numbers; \<open>None\<close> (\<^verbatim>\<open>+Infinity\<close>) when there is none.\<close>

definition minObserved :: "(js_error + jsnum) list \<Rightarrow> real option" where
  "minObserved ws = (case numbers ws of [] \<Rightarrow> None | n # ns \<Rightarrow> Some (Min (set (n # ns))))"

text \<open>The three maintenance operations \<^verbatim>\<open>computeWaitSim\<close> applies, as one function.\<close>

definition simMaintenance :: "env \<Rightarrow> real \<Rightarrow> UsageBucket \<Rightarrow> UsageBucket" where
  "simMaintenance e t b =
     pruneWindows t (maybeResetMonthlyRequests e t (maybeResetMonthlyTokens e t b))"


section \<open>The admission check against the table\<close>

lemma math_max_NaN_left [simp]: "math_max NaN w = NaN"
  by (cases w) simp_all

lemma math_max_NaN_right [simp]: "math_max w NaN = NaN"
  by (cases w) simp_all

lemma limitStep_NaN: "limitStep now tok b NaN l = NaN"
  by (cases "type l") (simp_all add: limitStep_def Let_def)

lemma foldl_limitStep_NaN: "foldl (limitStep now tok b) NaN ls = NaN"
  by (induction ls) (simp_all add: limitStep_NaN)

lemma candidates_Nil [simp]: "candidates now tok b [] = []"
  by (simp add: candidates_def map_filter_simps)



text \<open>A sliding-window limit of 0 or less on an empty window makes the wait \<^verbatim>\<open>NaN\<close>.\<close>

lemma limitStep_undefined:
  assumes "slidingLimit l \<and> limit l \<le> 0 \<and> windowOf (type l) b = []"
  shows "limitStep now tok b w l = NaN"
proof (cases "type l")
  case RPS
  with assms show ?thesis by (simp add: limitStep_def windowOf_def)
next
  case RPm
  with assms show ?thesis by (simp add: limitStep_def windowOf_def)
next
  case RPD
  with assms show ?thesis by (simp add: limitStep_def windowOf_def)
next
  case TPM
  with assms show ?thesis by (simp add: slidingLimit_def)
next
  case TPm
  with assms show ?thesis by (simp add: slidingLimit_def)
next
  case RPM
  with assms show ?thesis by (simp add: slidingLimit_def)
qed


lemma foldl_limitStep_undefined:
  "\<not> tableDefined ls b \<Longrightarrow> foldl (limitStep now tok b) w ls = NaN"
proof (induction ls arbitrary: w)
  case Nil
  then show ?case by (simp add: tableDefined_def)
next
  case (Cons l ls)
  show ?case
  proof (cases "slidingLimit l \<and> limit l \<le> 0 \<and> windowOf (type l) b = []")
    case True
    from limitStep_undefined [OF this] show ?thesis
      by (simp add: foldl_limitStep_NaN)
  next
    case False
    with Cons.prems have "\<not> tableDefined ls b"
      by (auto simp: tableDefined_def)
    from Cons.IH [OF this] show ?thesis by simp
  qed
qed




text \<open>\<^verbatim>\<open>computeWaitMs\<close> on the bucket the four maintenance operations leave.\<close>

lemma computeWaitMs_fold:
  "fst (computeWaitMs e opts now m tok store) =
     (case getActiveLimits opts m of
        Inl err \<Rightarrow> Inl err
      | Inr active \<Rightarrow>
          Inr (math_max (Num 0)
                 (foldl (limitStep now tok (maintenance e now (fst (getUsageBucket e m store))))
                    (Num 0) (limitsOf (Inr active)))))"
  by (simp add: computeWaitMs_def maintenance_def Let_def
      split: sum.splits option.splits prod.splits)


text \<open>
  Where a sliding-window limit of 0 or less meets an empty window, \<^verbatim>\<open>computeWaitMs\<close>
  returns \<^verbatim>\<open>NaN\<close>.
\<close>

lemma computeWaitMs_NaN_where_undefined:
  assumes "getActiveLimits opts m = Inr active"
    and "\<not> tableDefined (limitsOf (Inr active)) (maintenance e now (fst (getUsageBucket e m store)))"
  shows "fst (computeWaitMs e opts now m tok store) = Inr NaN"
  using assms by (simp add: computeWaitMs_fold foldl_limitStep_undefined)





section \<open>The start of the next month\<close>

text \<open>In a process whose local time is UTC the constructor reads the components as UTC.\<close>

lemma startOfNextMonth_in_UTC:
  "tzOffsetMs e = 0 \<Longrightarrow> startOfNextMonth e = firstInstantOfNextUTCMonth (clock e)"
  by (simp add: startOfNextMonth_def firstInstantOfNextUTCMonth_def Date_local_def Date_UTC_def
      getUTCFullYear_def getUTCMonth_def Let_def)

text \<open>
  C5. The reset-at value is computed by \<^verbatim>\<open>startOfNextMonth\<close>, which takes the year and
  the month of the UTC calendar and hands them to the \<^verbatim>\<open>Date\<close> constructor, which reads
  them as local time. In a process two hours ahead of UTC, at 2024-01-31T23:30:00Z, the
  value is 2024-01-31T22:00:00Z: not the first instant of the next UTC month
  (2024-02-01T00:00:00Z) and earlier than the current time, for a fresh bucket and for a
  counter that is reset alike.
\<close>

theorem startOfNextMonth_reads_local_time:
  "startOfNextMonth helsinkiEnv = 1706738400000
   \<and> firstInstantOfNextUTCMonth (clock helsinkiEnv) = 1706745600000
   \<and> startOfNextMonth helsinkiEnv < clock helsinkiEnv
   \<and> monthTokenResetAt (makeInitial helsinkiEnv) < clock helsinkiEnv
   \<and> monthRequestResetAt (makeInitial helsinkiEnv) < clock helsinkiEnv
   \<and> monthTokenResetAt (maybeResetMonthlyTokens helsinkiEnv (clock helsinkiEnv) (makeInitial helsinkiEnv))
       < clock helsinkiEnv
   \<and> monthRequestResetAt (maybeResetMonthlyRequests helsinkiEnv (clock helsinkiEnv) (makeInitial helsinkiEnv))
       < clock helsinkiEnv"
  by code_simp


section \<open>Maintenance in the estimator\<close>

text \<open>
  C6. \<^verbatim>\<open>computeWaitSim\<close> applies three of the four maintenance operations: the reset of
  the minute token window is missing. On a bucket whose minute window started 70 seconds
  ago, the admission check of the estimator leaves the 90 tokens and the old window start
  in place and admits a request of 150 tokens under a limit of 100 at once, where
  \<^verbatim>\<open>computeWaitMs\<close> zeroes the count, restarts the window at \<open>now\<close> and makes the request
  wait a minute.
\<close>

theorem computeWaitSim_skips_minute_reset:
  "tokenWindow (snd (computeWaitSim exampleEnv tpmOpts 1706743800000 1706743800000 None 150
                       [''__default__'' \<mapsto> staleBucket]) ''__default__'')
     = Some (90, 1706743730000)
   \<and> tokenWindow (entries (snd (computeWaitMs exampleEnv tpmOpts 1706743800000 None 150
                       (RAMUsageStrategy [''__default__'' \<mapsto> staleBucket]))) ''__default__'')
     = Some (0, 1706743800000)
   \<and> fst (computeWaitSim exampleEnv tpmOpts 1706743800000 1706743800000 None 150
            [''__default__'' \<mapsto> staleBucket]) = Inr (Num 0)
   \<and> fst (computeWaitMs exampleEnv tpmOpts 1706743800000 None 150
            (RAMUsageStrategy [''__default__'' \<mapsto> staleBucket])) = Inr (Num 60000)"
  by code_simp


section \<open>The dirty flag of the pocketbase strategy\<close>

text \<open>
  C7. \<^verbatim>\<open>recordUsage\<close> gets the bucket with \<^verbatim>\<open>getBucket\<close> and mutates it in place;
  \<^verbatim>\<open>getBucket\<close> marks a key dirty only when it creates the bucket, and nothing calls
  \<^verbatim>\<open>setBucket\<close>. After a successful dispatch for a model whose bucket was loaded with
  \<^verbatim>\<open>monthRequestCount\<close> 10, the bucket holds 11, no key is dirty, and a flush that
  succeeds writes nothing: the remote record still holds 10.
\<close>

theorem dispatch_leaves_loaded_bucket_clean:
  "fst (iteration exampleEnv exampleOpts seededQueuer)
     = [Resolve ''i1'' (), PersistCall 1706743800250, PersistCall 1706743800250]
   \<and> map_option changed afterDispatch = Some []
   \<and> map_option (\<lambda>s. map_option monthRequestCount (pb_map s ''q1::m'')) afterDispatch = Some (Some 11)
   \<and> map_option (\<lambda>s. fst (persist seededRemote s)) afterDispatch = Some (Inr ())
   \<and> map_option (\<lambda>s. fst (snd (persist seededRemote s))) afterDispatch = Some []
   \<and> map_option (\<lambda>s. requestCounts (snd (snd (snd (persist seededRemote s))))) afterDispatch
       = Some [(7, ''q1::m'', 10)]"
  by code_simp


section \<open>Models without limits\<close>

text \<open>
  Where \<^verbatim>\<open>getActiveLimits\<close> returns no limit, on a queuer whose fallback delay is absent
  (or 0), \<^verbatim>\<open>estimateWaitMs\<close> returns 0 before it looks at the pending queue or at the usage
  store, and \<^verbatim>\<open>add\<close> calls the closure at once: nothing is enqueued and the usage store is
  not touched.
\<close>

lemma fast_path:
  assumes "getActiveLimits opts m = Inr None \<or> getActiveLimits opts m = Inr (Some [])"
    and "\<not> truthy (fallbackDelayMs opts)"
  shows "estimateWaitMs fuel e opts perItemExecMs pending store m tokensNeeded = Some (Inr 0)"
    and "add estimateTokenCount newId e opts executeFunction tokenEstimateText m st
           = Immediate (executeFunction (clock e))"
  using assms by (auto simp: estimateWaitMs_def add_def Let_def)

text \<open>
  \<^verbatim>\<open>getActiveLimits\<close> returns no limit for a model that has no limit of its own on a queuer
  without default limits, unless the model's name is that of a function with parameters
  that every object inherits.
\<close>

lemma getActiveLimits_unconfigured:
  assumes "activeLimitSet opts (Some n) = []"
    and "inheritedFunctionLength n = None \<or> inheritedFunctionLength n = Some 0"
  shows "getActiveLimits opts (Some n) = Inr None \<or> getActiveLimits opts (Some n) = Inr (Some [])"
proof -
  let ?dl = "case defaultLimits opts of None \<Rightarrow> [] | Some d \<Rightarrow> d"
  let ?ml = "case (modelLimits opts, Some n) of
               (Some lims, Some n) \<Rightarrow> (case lims n of None \<Rightarrow> [] | Some modelEntries \<Rightarrow> modelEntries)
             | _ \<Rightarrow> []"
  have len: "length (foldl (\<lambda>acc entry. map (\<lambda>d. if type d = type entry then entry else d) acc) dl ml)
               = length dl" for dl ml :: "RateLimitConfig list"
    by (induction ml arbitrary: dl) simp_all
  from assms(1) have "foldl (\<lambda>acc entry. map (\<lambda>d. if type d = type entry then entry else d) acc) ?dl ?ml = []"
    and f: "filter (\<lambda>entry. type entry \<notin> type ` set ?dl) ?ml = []"
    by (simp_all add: activeLimitSet_def Let_def)
  with len [of ?dl ?ml] have dl: "?dl = []" by simp
  with f have ml: "?ml = []" by simp
  from assms(2) dl ml show ?thesis
    by (auto simp: getActiveLimits_def Let_def split: option.splits)
qed

text \<open>
  C10. \<^verbatim>\<open>getActiveLimits\<close> looks the model name up in the plain object \<^verbatim>\<open>modelLimits\<close>,
  and finds there what every object inherits. For the model name \<^verbatim>\<open>constructor\<close>, on a
  queuer with no default limits, no limit for that model and no fallback delay, the
  active limit set is empty, but the lookup gives a function with one parameter, the code
  takes it for the model's list of limits and calls \<^verbatim>\<open>.filter\<close> on it, which throws a
  \<^verbatim>\<open>TypeError\<close>: \<^verbatim>\<open>estimateWaitMs\<close> throws where it should return 0, and \<^verbatim>\<open>add\<close> rejects
  without calling the closure where it should execute it at once.
\<close>

theorem inherited_model_name_throws:
  "activeLimitSet noDefaultOpts (Some ''constructor'') = []
   \<and> \<not> truthy (fallbackDelayMs noDefaultOpts)
   \<and> getActiveLimits noDefaultOpts (Some ''constructor'') = Inl TypeError
   \<and> estimateWaitMs fuel exampleEnv noDefaultOpts 500 pending store (Some ''constructor'') 0
       = Some (Inl TypeError)
   \<and> estimateWaitMs fuel exampleEnv noDefaultOpts 500 pending store (Some ''constructor'') 0
       \<noteq> Some (Inr 0)
   \<and> add (\<lambda>text. real (length text)) ''i3'' exampleEnv noDefaultOpts (\<lambda>t. (Fulfilled (), t + 250))
        (Some ''hello'') (Some ''constructor'') idleQueuer = AddRejected TypeError
   \<and> getActiveLimits noDefaultOpts (Some ''hasOwnProperty'') = Inl TypeError
   \<and> getActiveLimits noDefaultOpts (Some ''slow'') = Inr None
   \<and> estimateWaitMs fuel exampleEnv noDefaultOpts 500 pending store (Some ''slow'') 0 = Some (Inr 0)"
proof -
  have a: "activeLimitSet noDefaultOpts (Some ''constructor'') = []"
    by code_simp
  have b: "\<not> truthy (fallbackDelayMs noDefaultOpts)"
    by code_simp
  have c: "getActiveLimits noDefaultOpts (Some ''constructor'') = Inl TypeError"
    by code_simp
  have d: "getActiveLimits noDefaultOpts (Some ''hasOwnProperty'') = Inl TypeError"
    by code_simp
  have s: "getActiveLimits noDefaultOpts (Some ''slow'') = Inr None"
    by code_simp
  have e1: "estimateWaitMs fuel exampleEnv noDefaultOpts 500 pending store (Some ''constructor'') 0
       = Some (Inl TypeError)"
    by (simp add: estimateWaitMs_def c)
  have e2: "add (\<lambda>text. real (length text)) ''i3'' exampleEnv noDefaultOpts (\<lambda>t. (Fulfilled (), t + 250))
        (Some ''hello'') (Some ''constructor'') idleQueuer = AddRejected TypeError"
    by (simp add: add_def c)
  have e3: "estimateWaitMs fuel exampleEnv noDefaultOpts 500 pending store (Some ''slow'') 0 = Some (Inr 0)"
    using b by (simp add: estimateWaitMs_def s)
  from a b c d s e1 e2 e3 show ?thesis by simp
qed


section \<open>A failing execute\<close>

text \<open>
  C4, as the claim states it, fails: a closure that rejects with a value that is not an
  \<^verbatim>\<open>Error\<close> instance has its future rejected with a new \<^verbatim>\<open>Error\<close> made of the value's
  string rendering, not with the original value.
\<close>

theorem rejection_wraps_other_values:
  "fst (execute (failingItem ''i2'' (Some ''fast'') (OtherValue ''boom'')) (clock exampleEnv))
     = Thrown (OtherValue ''boom'')
   \<and> fst (dispatch exampleEnv (failingItem ''i2'' (Some ''fast'') (OtherValue ''boom'')) exampleStore)
     = [Reject ''i2'' (ErrorObject ''boom'')]
   \<and> fst (dispatch exampleEnv (failingItem ''i2'' (Some ''fast'') (OtherValue ''boom'')) exampleStore)
     \<noteq> [Reject ''i2'' (OtherValue ''boom'')]"
  by (simp add: dispatch_def failingItem_def exampleEnv_def)

text \<open>
  C4, amended. When the closure of the selected item throws or rejects, the only thing
  the iteration does to the outside is to reject the item's future (and to sleep the
  fallback delay when one is configured and items remain): with the original error when
  it is an \<^verbatim>\<open>Error\<close> instance, else with a new \<^verbatim>\<open>Error\<close> of its string rendering. No usage is
  recorded and no flush is started: the usage store is the one the scan left, which is
  its state immediately before the call of \<^verbatim>\<open>execute\<close>. The item is removed from the
  queue and the loop goes on with the remaining items: the run of the loop on a queue
  whose first item fails rejects that item and then executes the next.
\<close>

theorem failed_execute_records_no_usage:
  assumes "fst (scanQueue e opts (clock e) (queue st) 0 None (usage st)) = (Runnable i, mw)"
    and "execute (queue st ! i) (clock e) = (Thrown err, settled)"
  shows "fst (iteration e opts st) =
           Reject (item_id (queue st ! i)) (toError err)
           # (if truthy (fallbackDelayMs opts) \<and> splice1 i (queue st) \<noteq> []
              then [Delay (or_zero (fallbackDelayMs opts))] else [])
         \<and> toError err = (case err of ErrorObject msg \<Rightarrow> err | OtherValue rendering \<Rightarrow> ErrorObject rendering)
         \<and> fst (snd (iteration e opts st)) =
             st\<lparr>queue := splice1 i (queue st),
                usage := snd (scanQueue e opts (clock e) (queue st) 0 None (usage st))\<rparr>
         \<and> dispatch e (queue st ! i) store = ([Reject (item_id (queue st ! i)) (toError err)], store, settled)
         \<and> dispatchLoop (Suc fuel) e opts st =
             map_option (\<lambda>(later, st2, e2, exit). (fst (iteration e opts st) @ later, st2, e2, exit))
               (dispatchLoop fuel (fst (snd (snd (iteration e opts st)))) opts (fst (snd (iteration e opts st))))
         \<and> snd (snd (snd (iteration e opts st))) = None
         \<and> runSummary (dispatchLoop 3 exampleEnv exampleOpts (failingQueuer (ErrorObject ''provider down'')))
             = Some ([Reject ''i2'' (ErrorObject ''provider down''),
                      Resolve ''i3'' (), PersistCall 1706743800290, PersistCall 1706743800290],
                     [], 1706743800290, None)"
proof -
  obtain store1 where scan: "scanQueue e opts (clock e) (queue st) 0 None (usage st) = ((Runnable i, mw), store1)"
    using assms(1) by (cases "scanQueue e opts (clock e) (queue st) 0 None (usage st)") auto
  have d: "dispatch e (queue st ! i) s = ([Reject (item_id (queue st ! i)) (toError err)], s, settled)" for s
    using assms(2) by (simp add: dispatch_def)
  have ne: "queue st \<noteq> []"
    using assms(1) by (cases "queue st") simp_all
  have it: "iteration e opts st =
      (Reject (item_id (queue st ! i)) (toError err)
           # (if truthy (fallbackDelayMs opts) \<and> splice1 i (queue st) \<noteq> []
              then [Delay (or_zero (fallbackDelayMs opts))] else []),
       st\<lparr>queue := splice1 i (queue st), usage := store1\<rparr>,
       (if truthy (fallbackDelayMs opts) \<and> splice1 i (queue st) \<noteq> []
        then e\<lparr>clock := settled + max 0 (or_zero (fallbackDelayMs opts))\<rparr>
        else e\<lparr>clock := settled\<rparr>),
       None)"
    by (simp add: iteration_def scan d Let_def)
  have e1: "toError err = (case err of ErrorObject msg \<Rightarrow> err | OtherValue rendering \<Rightarrow> ErrorObject rendering)"
    by (cases err) simp_all
  have loop: "dispatchLoop (Suc fuel) e opts st =
             map_option (\<lambda>(later, st2, e2, exit). (fst (iteration e opts st) @ later, st2, e2, exit))
               (dispatchLoop fuel (fst (snd (snd (iteration e opts st)))) opts (fst (snd (iteration e opts st))))"
    using ne by (simp add: it split: option.splits)
  have run: "runSummary (dispatchLoop 3 exampleEnv exampleOpts (failingQueuer (ErrorObject ''provider down'')))
             = Some ([Reject ''i2'' (ErrorObject ''provider down''),
                      Resolve ''i3'' (), PersistCall 1706743800290, PersistCall 1706743800290],
                     [], 1706743800290, None)"
    by code_simp
  show ?thesis
    using it e1 d loop scan run by simp
qed

theorem failed_execute_records_no_usage_witness:
  "fst (scanQueue exampleEnv exampleOpts (clock exampleEnv)
          (queue (failingQueuer (ErrorObject ''provider down''))) 0 None
          (usage (failingQueuer (ErrorObject ''provider down'')))) = (Runnable 0, None)
   \<and> execute (queue (failingQueuer (ErrorObject ''provider down'')) ! 0) (clock exampleEnv)
       = (Thrown (ErrorObject ''provider down''), 1706743800040)
   \<and> fst (iteration exampleEnv exampleOpts (failingQueuer (ErrorObject ''provider down'')))
       = [Reject ''i2'' (ErrorObject ''provider down'')]
   \<and> map item_id (queue (fst (snd (iteration exampleEnv exampleOpts (failingQueuer (ErrorObject ''provider down''))))))
       = [''i3'']
   \<and> usage (fst (snd (iteration exampleEnv exampleOpts (failingQueuer (ErrorObject ''provider down'')))))
       = snd (scanQueue exampleEnv exampleOpts (clock exampleEnv)
                (queue (failingQueuer (ErrorObject ''provider down''))) 0 None
                (usage (failingQueuer (ErrorObject ''provider down''))))
   \<and> runSummary (dispatchLoop 3 exampleEnv exampleOpts (failingQueuer (ErrorObject ''provider down'')))
       = Some ([Reject ''i2'' (ErrorObject ''provider down''),
                Resolve ''i3'' (), PersistCall 1706743800290, PersistCall 1706743800290],
               [], 1706743800290, None)"
proof -
  let ?st = "failingQueuer (ErrorObject ''provider down'')"
  have a: "fst (scanQueue exampleEnv exampleOpts (clock exampleEnv) (queue ?st) 0 None (usage ?st))
             = (Runnable 0, None)"
    by code_simp
  have b: "execute (queue ?st ! 0) (clock exampleEnv) = (Thrown (ErrorObject ''provider down''), 1706743800040)"
    by (simp add: failingQueuer_def failingItem_def exampleEnv_def)
  have c: "\<not> truthy (fallbackDelayMs exampleOpts)"
    by code_simp
  have d: "map item_id (splice1 0 (queue ?st)) = [''i3'']" "item_id (queue ?st ! 0) = ''i2''"
    by (simp_all add: failingQueuer_def splice1_def okItem_def failingItem_def)
  from failed_execute_records_no_usage [OF a b, of exampleStore 0] a b c d show ?thesis
    by simp
qed


section \<open>A failing flush\<close>

lemma persistKey_write_fails:
  assumes "\<not> online r \<or> \<not> writable r"
  shows "persistKey (logs, s, r) key = (logs @ failureLog r s [key], s, r)"
proof (cases "pb_map s key")
  case None
  then show ?thesis by (simp add: persistKey_def failureLog_def)
next
  case (Some bucket)
  show ?thesis
  proof (cases "online r")
    case False
    with Some show ?thesis
      by (simp add: persistKey_def failureLog_def createRecord_def split: option.splits)
  next
    case True
    with assms have "\<not> writable r" by simp
    with True Some show ?thesis
      by (simp add: persistKey_def failureLog_def createRecord_def split: option.splits)
  qed
qed

lemma failureLog_Cons: "failureLog r s (key # keys) = failureLog r s [key] @ failureLog r s keys"
  by (simp add: failureLog_def)

lemma foldl_persistKey_write_fails:
  assumes "\<not> online r \<or> \<not> writable r"
  shows "foldl persistKey (logs, s, r) keys = (logs @ failureLog r s keys, s, r)"
proof (induction keys arbitrary: logs)
  case Nil
  show ?case by (simp add: failureLog_def)
next
  case (Cons key keys)
  have "foldl persistKey (logs, s, r) (key # keys) = foldl persistKey (logs @ failureLog r s [key], s, r) keys"
    by (simp add: persistKey_write_fails [OF assms])
  also have "\<dots> = ((logs @ failureLog r s [key]) @ failureLog r s keys, s, r)"
    by (rule Cons.IH)
  finally show ?case
    by (simp add: failureLog_Cons [of r s key keys])
qed

text \<open>
  C8, as the claim states it, fails: a flush whose write is refused is logged and
  swallowed, but the key is no longer dirty afterwards, although the remote record
  still holds the old count.
\<close>

theorem failed_write_clears_dirty_flag:
  "changed dirtyState = [''q1::m'']
   \<and> fst (persist readOnlyRemote dirtyState) = Inr ()
   \<and> fst (snd (persist readOnlyRemote dirtyState)) = [CreateFailed]
   \<and> requestCounts (snd (snd (snd (persist readOnlyRemote dirtyState)))) = [(7, ''q1::m'', 10)]
   \<and> map_option monthRequestCount (pb_map (fst (snd (snd (persist readOnlyRemote dirtyState)))) ''q1::m'')
       = Some 11
   \<and> ''q1::m'' \<notin> set (changed (fst (snd (snd (persist readOnlyRemote dirtyState)))))"
  by code_simp

text \<open>
  C8, amended. A flush of a strategy that is not disposed:
  \<^item> when the strategy holds a token and the remote store cannot be reached or refuses
    writes, the flush resolves (the error is swallowed, nothing blocks the dispatch), it
    logs one entry for every dirty key that has a bucket, the remote store and the
    record ids are unchanged, and the dirty set is empty afterwards: the dirty flags are
    cleared before the writes are attempted and are not set again;
  \<^item> when the strategy holds no token and the authentication fails, the flush rejects
    before it clears anything: the strategy, and with it every dirty flag, is unchanged;
  \<^item> the same holds however \<^verbatim>\<open>ensureAuth\<close> ends: when it returns (with a cached or a new
    token) and the store refuses or does not receive the writes, the dirty set is empty
    afterwards; when it throws (the store not reached, the credentials refused, or no
    token in the answer), the flush rejects with that error and the strategy is unchanged.
\<close>

theorem failed_flush_keeps_flags_only_on_auth_failure:
  assumes "\<not> disposed s"
  shows "((\<exists>token. auth s = Some token \<and> token \<noteq> []) \<and> (\<not> online r \<or> \<not> writable r)
            \<longrightarrow> persist r s = (Inr (), failureLog r s (changed s), s\<lparr>changed := []\<rparr>, r))
         \<and> (auth s = None \<and> (\<not> online r \<or> \<not> credentialsOk r)
            \<longrightarrow> persist r s = (Inl (if online r then AuthFailed else FetchFailed), [], s, r))
         \<and> (\<forall>s1. ensureAuth r s = Inr s1 \<and> (\<not> online r \<or> \<not> writable r)
            \<longrightarrow> persist r s = (Inr (), failureLog r s1 (changed s1), s1\<lparr>changed := []\<rparr>, r)
                \<and> changed s1 = changed s \<and> pb_map s1 = pb_map s)
         \<and> (\<forall>err. ensureAuth r s = Inl err \<longrightarrow> persist r s = (Inl err, [], s, r))"
proof (intro conjI impI allI)
  assume a: "(\<exists>token. auth s = Some token \<and> token \<noteq> []) \<and> (\<not> online r \<or> \<not> writable r)"
  then have auth: "ensureAuth r s = Inr s"
    by (auto simp: ensureAuth_def)
  from a have w: "\<not> online r \<or> \<not> writable r" by blast
  show "persist r s = (Inr (), failureLog r s (changed s), s\<lparr>changed := []\<rparr>, r)"
    using assms auth foldl_persistKey_write_fails [OF w, of "[]" "s\<lparr>changed := []\<rparr>" "changed s"]
    by (simp add: persist_def Let_def failureLog_def)
next
  assume a: "auth s = None \<and> (\<not> online r \<or> \<not> credentialsOk r)"
  then have "ensureAuth r s = Inl (if online r then AuthFailed else FetchFailed)"
    by (auto simp: ensureAuth_def)
  with assms show "persist r s = (Inl (if online r then AuthFailed else FetchFailed), [], s, r)"
    by (simp add: persist_def)
next
  fix s1
  assume a: "ensureAuth r s = Inr s1 \<and> (\<not> online r \<or> \<not> writable r)"
  then have auth: "ensureAuth r s = Inr s1" and w: "\<not> online r \<or> \<not> writable r" by blast+
  from auth show "changed s1 = changed s"
    by (auto simp: ensureAuth_def split: if_splits)
  from auth show "pb_map s1 = pb_map s"
    by (auto simp: ensureAuth_def split: if_splits)
  show "persist r s = (Inr (), failureLog r s1 (changed s1), s1\<lparr>changed := []\<rparr>, r)"
    using assms auth foldl_persistKey_write_fails [OF w, of "[]" "s1\<lparr>changed := []\<rparr>" "changed s1"]
    by (simp add: persist_def Let_def failureLog_def)
next
  fix err
  assume "ensureAuth r s = Inl err"
  with assms show "persist r s = (Inl err, [], s, r)"
    by (simp add: persist_def)
qed

theorem failed_flush_keeps_flags_only_on_auth_failure_witness:
  "\<not> disposed dirtyState
   \<and> auth dirtyState = Some ''token''
   \<and> \<not> writable readOnlyRemote
   \<and> persist readOnlyRemote dirtyState = (Inr (), [CreateFailed], dirtyState\<lparr>changed := []\<rparr>, readOnlyRemote)
   \<and> \<not> disposed (dirtyState\<lparr>auth := None\<rparr>)
   \<and> auth (dirtyState\<lparr>auth := None\<rparr>) = None
   \<and> \<not> online offlineRemote
   \<and> persist offlineRemote (dirtyState\<lparr>auth := None\<rparr>)
       = (Inl FetchFailed, [], dirtyState\<lparr>auth := None\<rparr>, offlineRemote)
   \<and> changed (dirtyState\<lparr>auth := None\<rparr>) = [''q1::m'']
   \<and> ensureAuth readOnlyRemote (dirtyState\<lparr>auth := None\<rparr>) = Inr dirtyState
   \<and> persist readOnlyRemote (dirtyState\<lparr>auth := None\<rparr>)
       = (Inr (), [CreateFailed], dirtyState\<lparr>changed := []\<rparr>, readOnlyRemote)
   \<and> ensureAuth (seededRemote\<lparr>issuedToken := []\<rparr>) (dirtyState\<lparr>auth := None\<rparr>) = Inl MissingToken
   \<and> persist (seededRemote\<lparr>issuedToken := []\<rparr>) (dirtyState\<lparr>auth := None\<rparr>)
       = (Inl MissingToken, [], dirtyState\<lparr>auth := None\<rparr>, seededRemote\<lparr>issuedToken := []\<rparr>)"
proof -
  have a: "\<not> disposed dirtyState" "auth dirtyState = Some ''token''" "\<not> writable readOnlyRemote"
    by code_simp+
  have b: "\<not> disposed (dirtyState\<lparr>auth := None\<rparr>)" "auth (dirtyState\<lparr>auth := None\<rparr>) = None"
    "\<not> online offlineRemote" "changed (dirtyState\<lparr>auth := None\<rparr>) = [''q1::m'']"
    by code_simp+
  have c: "failureLog readOnlyRemote dirtyState (changed dirtyState) = [CreateFailed]"
    by code_simp
  have d: "ensureAuth readOnlyRemote (dirtyState\<lparr>auth := None\<rparr>) = Inr dirtyState"
    by (simp add: ensureAuth_def dirtyState_def seededState_def readOnlyRemote_def seededRemote_def)
  have m: "ensureAuth (seededRemote\<lparr>issuedToken := []\<rparr>) (dirtyState\<lparr>auth := None\<rparr>) = Inl MissingToken"
    by (simp add: ensureAuth_def dirtyState_def seededState_def seededRemote_def)
  have tk: "(\<exists>token. auth dirtyState = Some token \<and> token \<noteq> [])
              \<and> (\<not> online readOnlyRemote \<or> \<not> writable readOnlyRemote)"
    using a by simp
  have na: "auth (dirtyState\<lparr>auth := None\<rparr>) = None
              \<and> (\<not> online offlineRemote \<or> \<not> credentialsOk offlineRemote)"
    using b by simp
  have rw: "ensureAuth readOnlyRemote (dirtyState\<lparr>auth := None\<rparr>) = Inr dirtyState
              \<and> (\<not> online readOnlyRemote \<or> \<not> writable readOnlyRemote)"
    using a d by simp
  note t1 = failed_flush_keeps_flags_only_on_auth_failure [OF a(1), of readOnlyRemote]
  note t2 = failed_flush_keeps_flags_only_on_auth_failure [OF b(1), of offlineRemote]
  note t3 = failed_flush_keeps_flags_only_on_auth_failure [OF b(1), of readOnlyRemote]
  note t4 = failed_flush_keeps_flags_only_on_auth_failure [OF b(1), of "seededRemote\<lparr>issuedToken := []\<rparr>"]
  from t1 tk have "persist readOnlyRemote dirtyState
      = (Inr (), failureLog readOnlyRemote dirtyState (changed dirtyState), dirtyState\<lparr>changed := []\<rparr>,
         readOnlyRemote)"
    by blast
  then have p1: "persist readOnlyRemote dirtyState
      = (Inr (), [CreateFailed], dirtyState\<lparr>changed := []\<rparr>, readOnlyRemote)"
    by (simp only: c)
  from t2 na have "persist offlineRemote (dirtyState\<lparr>auth := None\<rparr>)
      = (Inl (if online offlineRemote then AuthFailed else FetchFailed), [], dirtyState\<lparr>auth := None\<rparr>,
         offlineRemote)"
    by blast
  then have p2: "persist offlineRemote (dirtyState\<lparr>auth := None\<rparr>)
       = (Inl FetchFailed, [], dirtyState\<lparr>auth := None\<rparr>, offlineRemote)"
    using b(3) by (simp only: if_False)
  from t3 rw have "persist readOnlyRemote (dirtyState\<lparr>auth := None\<rparr>)
      = (Inr (), failureLog readOnlyRemote dirtyState (changed dirtyState), dirtyState\<lparr>changed := []\<rparr>,
         readOnlyRemote)"
    by blast
  then have p3: "persist readOnlyRemote (dirtyState\<lparr>auth := None\<rparr>)
       = (Inr (), [CreateFailed], dirtyState\<lparr>changed := []\<rparr>, readOnlyRemote)"
    by (simp only: c)
  from t4 m have p4: "persist (seededRemote\<lparr>issuedToken := []\<rparr>) (dirtyState\<lparr>auth := None\<rparr>)
       = (Inl MissingToken, [], dirtyState\<lparr>auth := None\<rparr>, seededRemote\<lparr>issuedToken := []\<rparr>)"
    by blast
  show ?thesis
    apply (intro conjI)
    apply (rule a(1))
    apply (rule a(2))
    apply (rule a(3))
    apply (rule p1)
    apply (rule b(1))
    apply (rule b(2))
    apply (rule b(3))
    apply (rule p2)
    apply (rule b(4))
    apply (rule d)
    apply (rule p3)
    apply (rule m)
    apply (rule p4)
    done
qed


section \<open>The scan of the dispatch loop\<close>

lemma makeKey_inject [simp]: "makeKey lbl k = makeKey lbl k' \<longleftrightarrow> k = k'"
  by (simp add: makeKey_def split: option.splits)

lemma bucketOf_getBucket [simp]:
  "bucketOf e k (snd (getBucket e k' store)) = bucketOf e k store"
proof (cases store)
  case (RAMUsageStrategy m)
  then show ?thesis
    by (simp add: bucketOf_def Let_def split: option.splits)
next
  case (pocketbaseUsageStrategy s)
  then show ?thesis
    by (simp add: bucketOf_def Let_def split: option.splits)
qed

lemma bucketOf_mutateBucket [simp]:
  "bucketOf e k (mutateBucket k' b store) = (if k = k' then b else bucketOf e k store)"
proof (cases store)
  case (RAMUsageStrategy m)
  then show ?thesis
    by (simp add: bucketOf_def Let_def split: option.splits)
next
  case (pocketbaseUsageStrategy s)
  then show ?thesis
    by (simp add: bucketOf_def Let_def split: option.splits)
qed

lemma pruneWindows_idem [simp]: "pruneWindows now (pruneWindows now b) = pruneWindows now b"
  by (simp add: pruneWindows_def Let_def)

lemma maintenance_fields:
  "secondWindowTimestamps (maintenance e now b) = dropWhile (\<lambda>t. t \<le> now - 1000) (secondWindowTimestamps b)"
  "minuteWindowTimestamps (maintenance e now b) = dropWhile (\<lambda>t. t \<le> now - 60000) (minuteWindowTimestamps b)"
  "dayWindowTimestamps (maintenance e now b) = dropWhile (\<lambda>t. t \<le> now - 86400000) (dayWindowTimestamps b)"
  "monthTokenCount (maintenance e now b) = (if now \<ge> monthTokenResetAt b then 0 else monthTokenCount b)"
  "monthTokenResetAt (maintenance e now b) =
     (if now \<ge> monthTokenResetAt b then startOfNextMonth e else monthTokenResetAt b)"
  "monthRequestCount (maintenance e now b) = (if now \<ge> monthRequestResetAt b then 0 else monthRequestCount b)"
  "monthRequestResetAt (maintenance e now b) =
     (if now \<ge> monthRequestResetAt b then startOfNextMonth e else monthRequestResetAt b)"
  "minuteTokenCount (maintenance e now b) =
     (if now - minuteTokenWindowStart b \<ge> 60000 then 0 else minuteTokenCount b)"
  "minuteTokenWindowStart (maintenance e now b) =
     (if now - minuteTokenWindowStart b \<ge> 60000 then now else minuteTokenWindowStart b)"
  by (simp_all add: maintenance_def pruneWindows_def maybeResetMinuteTokens_def
      maybeResetMonthlyRequests_def maybeResetMonthlyTokens_def Let_def)

lemma maintenance_idem [simp]: "maintenance e now (maintenance e now b) = maintenance e now b"
  by (rule UsageBucket.equality) (simp_all add: maintenance_fields)

lemma computeWaitMs_store:
  "snd (computeWaitMs e opts now m tok store) = store
   \<or> snd (computeWaitMs e opts now m tok store)
       = mutateBucket (bucketKey m) (maintenance e now (bucketOf e (bucketKey m) store))
           (snd (getBucket e (bucketKey m) store))"
  by (simp add: computeWaitMs_def maintenance_def bucketOf_def getUsageBucket_def Let_def
      split: sum.splits option.splits prod.splits)

lemma maintenance_after_computeWaitMs [simp]:
  "maintenance e now (bucketOf e k (snd (computeWaitMs e opts now m tok store)))
     = maintenance e now (bucketOf e k store)"
  using computeWaitMs_store [of e opts now m tok store] by auto

lemma computeWaitMs_fold':
  "fst (computeWaitMs e opts now m tok store) =
     (case getActiveLimits opts m of
        Inl err \<Rightarrow> Inl err
      | Inr active \<Rightarrow>
          Inr (math_max (Num 0)
                 (foldl (limitStep now tok (maintenance e now (bucketOf e (bucketKey m) store)))
                    (Num 0) (limitsOf (Inr active)))))"
  by (simp add: computeWaitMs_fold bucketOf_def getUsageBucket_def split: sum.splits)

text \<open>The waits of one scan do not depend on the items scanned before.\<close>

lemma itemWait_after_computeWaitMs [simp]:
  "itemWait e opts now (snd (computeWaitMs e opts now m tok store)) qi = itemWait e opts now store qi"
  by (simp add: itemWait_def computeWaitMs_fold' split: sum.splits)

text \<open>A wait that is \<^verbatim>\<open><= 0\<close> is 0: the result is clamped.\<close>

lemma itemWait_zero:
  assumes "itemWait e opts now store qi = Inr w"
  shows "le_zero w \<longleftrightarrow> w = Num 0"
proof -
  have clamp: "le_zero (math_max (Num 0) v) \<longleftrightarrow> math_max (Num 0) v = Num 0" for v
    by (cases v) (auto simp: max_def)
  from assms show ?thesis
    by (auto simp: itemWait_def computeWaitMs_fold' clamp split: sum.splits)
qed

lemma itemWait_runnable:
  "(\<exists>w. itemWait e opts now store qi = Inr w \<and> le_zero w) \<longleftrightarrow> itemWait e opts now store qi = Inr (Num 0)"
  using itemWait_zero [of e opts now store qi] by auto

lemma itemWait_waiting:
  "(\<exists>w. itemWait e opts now store qi = Inr w \<and> \<not> le_zero w)
     \<longleftrightarrow> (\<exists>w. itemWait e opts now store qi = Inr w \<and> w \<noteq> Num 0)"
  using itemWait_zero [of e opts now store qi] by auto

lemma scanQueue_index:
  "fst (fst (scanQueue e opts now q i0 mw0 store)) = Runnable j \<longleftrightarrow>
     i0 \<le> j \<and> j - i0 < length q
     \<and> (\<exists>w. itemWait e opts now store (q ! (j - i0)) = Inr w \<and> le_zero w)
     \<and> (\<forall>k<j - i0. \<exists>w. itemWait e opts now store (q ! k) = Inr w \<and> \<not> le_zero w)"
proof (induction q arbitrary: i0 mw0 store)
  case Nil
  show ?case by simp
next
  case (Cons qi rest)
  let ?A = "\<lambda>x::'a QueueItem. \<exists>w. itemWait e opts now store x = Inr w \<and> le_zero w"
  let ?B = "\<lambda>x::'a QueueItem. \<exists>w. itemWait e opts now store x = Inr w \<and> \<not> le_zero w"
  let ?R = "i0 \<le> j \<and> j - i0 < length (qi # rest) \<and> ?A ((qi # rest) ! (j - i0))
            \<and> (\<forall>k<j - i0. ?B ((qi # rest) ! k))"
  obtain r store1 where cw: "computeWaitMs e opts now (modelName qi) (or_zero (tokens qi)) store = (r, store1)"
    by (cases "computeWaitMs e opts now (modelName qi) (or_zero (tokens qi)) store")
  then have r: "itemWait e opts now store qi = r"
    by (simp add: itemWait_def)
  from cw have s1: "store1 = snd (computeWaitMs e opts now (modelName qi) (or_zero (tokens qi)) store)"
    by simp
  have same: "itemWait e opts now store1 x = itemWait e opts now store x" for x :: "'a QueueItem"
    unfolding s1 by simp
  have head: "?R \<Longrightarrow> j = i0 \<Longrightarrow> ?A qi" by simp
  have later: "?R \<Longrightarrow> j \<noteq> i0 \<Longrightarrow> ?B qi"
  proof -
    assume a: ?R and "j \<noteq> i0"
    then have "0 < j - i0" by simp
    with a have "?B ((qi # rest) ! 0)" by blast
    then show "?B qi" by simp
  qed
  show ?case
  proof (cases r)
    case (Inl err)
    with r have "\<not> ?A qi" "\<not> ?B qi" by simp_all
    with head later have "\<not> ?R" by blast
    moreover from Inl cw have "fst (fst (scanQueue e opts now (qi # rest) i0 mw0 store)) \<noteq> Runnable j"
      by simp
    ultimately show ?thesis by blast
  next
    case (Inr w)
    show ?thesis
    proof (cases "le_zero w")
      case True
      with Inr r have A: "?A qi" and nB: "\<not> ?B qi" by simp_all
      have "?R \<longleftrightarrow> j = i0"
      proof
        assume ?R
        with later nB show "j = i0" by blast
      next
        assume "j = i0"
        with A show ?R by simp
      qed
      moreover from True Inr cw
      have "fst (fst (scanQueue e opts now (qi # rest) i0 mw0 store)) = Runnable i0"
        by simp
      ultimately show ?thesis by auto
    next
      case False
      with Inr r have nA: "\<not> ?A qi" and B: "?B qi" by simp_all
      have "fst (fst (scanQueue e opts now (qi # rest) i0 mw0 store)) = Runnable j \<longleftrightarrow>
            fst (fst (scanQueue e opts now rest (Suc i0) (lower_minWait w mw0) store1)) = Runnable j"
        using False Inr cw by simp
      also have "\<dots> \<longleftrightarrow> Suc i0 \<le> j \<and> j - Suc i0 < length rest
          \<and> ?A (rest ! (j - Suc i0)) \<and> (\<forall>k<j - Suc i0. ?B (rest ! k))"
        by (simp add: Cons.IH same)
      also have "\<dots> \<longleftrightarrow> ?R"
      proof (cases "Suc i0 \<le> j")
        case le: True
        then obtain d where d: "j - i0 = Suc d" "j - Suc i0 = d"
          by (metis Suc_diff_Suc Suc_le_lessD diff_Suc_Suc diff_zero minus_nat.diff_0 Suc_diff_le)
        have all: "(\<forall>k<Suc d. ?B ((qi # rest) ! k)) \<longleftrightarrow> (\<forall>k<d. ?B (rest ! k))"
          using B by (auto simp: less_Suc_eq_0_disj)
        from le d all show ?thesis by auto
      next
        case nle: False
        then have "j \<le> i0" by simp
        have "\<not> ?R"
        proof
          assume a: ?R
          with \<open>j \<le> i0\<close> have "j = i0" by simp
          with head [OF a] nA show False by blast
        qed
        with nle show ?thesis by blast
      qed
      finally show ?thesis .
    qed
  qed
qed

lemma scanQueue_none_set:
  "fst (fst (scanQueue e opts now q i0 mw0 store)) = NoneRunnable \<longleftrightarrow>
     (\<forall>x\<in>set q. \<exists>w. itemWait e opts now store x = Inr w \<and> \<not> le_zero w)"
proof (induction q arbitrary: i0 mw0 store)
  case Nil
  show ?case by simp
next
  case (Cons qi rest)
  obtain r store1 where cw: "computeWaitMs e opts now (modelName qi) (or_zero (tokens qi)) store = (r, store1)"
    by (cases "computeWaitMs e opts now (modelName qi) (or_zero (tokens qi)) store")
  then have r: "itemWait e opts now store qi = r"
    by (simp add: itemWait_def)
  from cw have s1: "store1 = snd (computeWaitMs e opts now (modelName qi) (or_zero (tokens qi)) store)"
    by simp
  have same: "itemWait e opts now store1 x = itemWait e opts now store x" for x :: "'a QueueItem"
    unfolding s1 by simp
  show ?case
  proof (cases r)
    case (Inl err)
    with r cw show ?thesis by simp
  next
    case (Inr w)
    show ?thesis
    proof (cases "le_zero w")
      case True
      with Inr r cw show ?thesis by simp
    next
      case False
      with Inr r cw Cons.IH [of "Suc i0" "lower_minWait w mw0" store1] show ?thesis
        by (simp add: same)
    qed
  qed
qed

lemma scanQueue_none:
  "fst (fst (scanQueue e opts now q i0 mw0 store)) = NoneRunnable \<longleftrightarrow>
     (\<forall>k<length q. \<exists>w. itemWait e opts now store (q ! k) = Inr w \<and> \<not> le_zero w)"
  by (simp add: scanQueue_none_set all_set_conv_all_nth)

text \<open>The smallest wait the scan has seen when it has found no runnable item.\<close>

lemma scanQueue_minWait:
  "(\<forall>x\<in>set q. \<exists>w. itemWait e opts now store x = Inr w \<and> \<not> le_zero w) \<Longrightarrow>
     snd (fst (scanQueue e opts now q i0 mw0 store))
       = foldl (\<lambda>a r. case r of Inl err \<Rightarrow> a | Inr w \<Rightarrow> lower_minWait w a) mw0
           (map (itemWait e opts now store) q)"
proof (induction q arbitrary: i0 mw0 store)
  case Nil
  show ?case by simp
next
  case (Cons qi rest)
  obtain r store1 where cw: "computeWaitMs e opts now (modelName qi) (or_zero (tokens qi)) store = (r, store1)"
    by (cases "computeWaitMs e opts now (modelName qi) (or_zero (tokens qi)) store")
  then have r: "itemWait e opts now store qi = r"
    by (simp add: itemWait_def)
  from cw have s1: "store1 = snd (computeWaitMs e opts now (modelName qi) (or_zero (tokens qi)) store)"
    by simp
  have same: "itemWait e opts now store1 = itemWait e opts now store"
    unfolding s1 by (rule ext) simp
  from Cons.prems r obtain w where w: "r = Inr w" "\<not> le_zero w" by auto
  from Cons.prems have "\<forall>x\<in>set rest. \<exists>w. itemWait e opts now store1 x = Inr w \<and> \<not> le_zero w"
    by (simp add: same)
  from Cons.IH [OF this, of "Suc i0" "lower_minWait w mw0"] w cw r show ?case
    by (simp add: same)
qed

lemma foldl_lower_Some:
  "foldl (\<lambda>a r. case r of Inl err \<Rightarrow> a | Inr w \<Rightarrow> lower_minWait w a) (Some a) ws
     = Some (Min (set (a # numbers ws)))"
proof (induction ws arbitrary: a rule: numbers.induct)
  case 1
  show ?case by simp
next
  case (2 x ws)
  have l: "lower_minWait (Num x) (Some a) = Some (min a x)"
    by (simp add: min_def)
  have "Min (insert (min a x) (set (numbers ws))) = Min (insert a (insert x (set (numbers ws))))"
    by (cases "set (numbers ws) = {}") (simp_all add: min.assoc)
  with l 2 [of "min a x"] show ?case by simp
next
  case (3 ws)
  from 3 [of a] show ?case by simp
next
  case (4 err ws)
  from 4 [of a] show ?case by simp
qed

lemma foldl_lower_None:
  "foldl (\<lambda>a r. case r of Inl err \<Rightarrow> a | Inr w \<Rightarrow> lower_minWait w a) None ws = minObserved ws"
proof (induction ws rule: numbers.induct)
  case 1
  show ?case by (simp add: minObserved_def)
next
  case (2 x ws)
  show ?case by (simp add: minObserved_def foldl_lower_Some)
next
  case (3 ws)
  then show ?case by (simp add: minObserved_def)
next
  case (4 err ws)
  then show ?case by (simp add: minObserved_def)
qed

text \<open>\<^verbatim>\<open>Math.max(1, Math.min(minWait, 5_000))\<close> is the clamp to the interval from 1 to 5000.\<close>

lemma sleepMs_clamp:
  "sleepMs mw = (case mw of None \<Rightarrow> 5000 | Some m \<Rightarrow> if m < 1 then 1 else if 5000 < m then 5000 else m)"
  by (cases mw) (auto simp: max_def min_def)




lemma iteration_runnable:
  assumes "scanQueue e opts (clock e) (queue st) 0 None (usage st) = ((Runnable j, mw), store1)"
  shows "fst (iteration e opts st) =
           fst (dispatch e (queue st ! j) store1)
           @ (if truthy (fallbackDelayMs opts) \<and> splice1 j (queue st) \<noteq> []
              then [Delay (or_zero (fallbackDelayMs opts))] else [])"
    and "queue (fst (snd (iteration e opts st))) = splice1 j (queue st)"
    and "snd (snd (snd (iteration e opts st))) = None"
  using assms
  by (cases "dispatch e (queue st ! j) store1"; simp add: iteration_def Let_def)+

lemma iteration_sleep:
  assumes "scanQueue e opts (clock e) (queue st) 0 None (usage st) = ((NoneRunnable, mw), store1)"
  shows "iteration e opts st =
           ([Delay (sleepMs mw)], st\<lparr>usage := store1\<rparr>, e\<lparr>clock := clock e + sleepMs mw\<rparr>, None)"
  using assms by (simp add: iteration_def Let_def)

text \<open>A run that ends with some fuel ends the same with more.\<close>

lemma dispatchLoop_more_fuel:
  "dispatchLoop fuel e opts st = Some r \<Longrightarrow> dispatchLoop (fuel + k) e opts st = Some r"
proof (induction fuel arbitrary: e st r)
  case 0
  then show ?case by simp
next
  case (Suc fuel)
  show ?case
  proof (cases "queue st = []")
    case True
    with Suc.prems show ?thesis by simp
  next
    case False
    obtain events st1 e1 thrown where it: "iteration e opts st = (events, st1, e1, thrown)"
      by (cases "iteration e opts st") auto
    show ?thesis
    proof (cases thrown)
      case (Some err)
      with Suc.prems False it show ?thesis by auto
    next
      case None
      with Suc.prems False it obtain r1 where r1: "dispatchLoop fuel e1 opts st1 = Some r1"
        by (cases "dispatchLoop fuel e1 opts st1") simp_all
      from Suc.IH [OF r1] r1 Suc.prems False it None show ?thesis
        by simp
    qed
  qed
qed


text \<open>
  C2. One iteration of the dispatch loop, with the wait of every item taken under its
  own model's active limits and its own token estimate on the usage store as the
  iteration finds it:
  \<^item> the scan selects index \<open>j\<close> exactly when \<open>j\<close> is the smallest index whose wait is
    0 (and no earlier wait failed to compute); that item is removed from the queue and
    executed, whatever stands before it, so a later item whose model is free is
    dispatched before an earlier item whose model is at its limit;
  \<^item> the scan selects nothing exactly when every wait is computed and none is 0; the
    iteration then sleeps the minimum observed wait clamped to the interval from 1 to
    5000 ms (5000 when no wait is a number), with the queue as it was;
  \<^item> the loop ends on an empty queue, and else runs one iteration and goes on from the
    state and the clock that iteration left, scanning again.

  The run of the loop on the queue [\<^verbatim>\<open>slow\<close> at its limit, \<^verbatim>\<open>fast\<close> free]: the later item
  is executed first, then the loop sleeps the 250 ms that are left of the wait of the
  earlier one, scans again and executes it.
\<close>

theorem dispatch_selects_first_runnable:
  "(fst (fst (scanQueue e opts (clock e) (queue st) 0 None (usage st))) = Runnable j
      \<longleftrightarrow> j < length (queue st)
          \<and> itemWait e opts (clock e) (usage st) (queue st ! j) = Inr (Num 0)
          \<and> (\<forall>k<j. \<exists>w. itemWait e opts (clock e) (usage st) (queue st ! k) = Inr w \<and> w \<noteq> Num 0))
   \<and> (fst (fst (scanQueue e opts (clock e) (queue st) 0 None (usage st))) = Runnable j
      \<longrightarrow> queue (fst (snd (iteration e opts st))) = splice1 j (queue st)
          \<and> fst (iteration e opts st) =
              fst (dispatch e (queue st ! j) (snd (scanQueue e opts (clock e) (queue st) 0 None (usage st))))
              @ (if truthy (fallbackDelayMs opts) \<and> splice1 j (queue st) \<noteq> []
                 then [Delay (or_zero (fallbackDelayMs opts))] else [])
          \<and> snd (snd (snd (iteration e opts st))) = None)
   \<and> (fst (fst (scanQueue e opts (clock e) (queue st) 0 None (usage st))) = NoneRunnable
      \<longleftrightarrow> (\<forall>k<length (queue st).
              \<exists>w. itemWait e opts (clock e) (usage st) (queue st ! k) = Inr w \<and> w \<noteq> Num 0))
   \<and> (fst (fst (scanQueue e opts (clock e) (queue st) 0 None (usage st))) = NoneRunnable
      \<longrightarrow> fst (iteration e opts st)
            = [Delay (case minObserved (map (itemWait e opts (clock e) (usage st)) (queue st)) of
                        None \<Rightarrow> 5000
                      | Some m \<Rightarrow> max 1 (min m 5000))]
          \<and> queue (fst (snd (iteration e opts st))) = queue st
          \<and> clock (fst (snd (snd (iteration e opts st))))
              = clock e + (case minObserved (map (itemWait e opts (clock e) (usage st)) (queue st)) of
                             None \<Rightarrow> 5000
                           | Some m \<Rightarrow> max 1 (min m 5000))
          \<and> snd (snd (snd (iteration e opts st))) = None)
   \<and> dispatchLoop (Suc fuel) e opts st =
       (if queue st = [] then Some ([], st, e, None)
        else case snd (snd (snd (iteration e opts st))) of
               Some err \<Rightarrow> Some (iteration e opts st)
             | None \<Rightarrow>
                 (case dispatchLoop fuel (fst (snd (snd (iteration e opts st)))) opts
                         (fst (snd (iteration e opts st))) of
                    None \<Rightarrow> None
                  | Some (later, st2, e2, exit) \<Rightarrow> Some (fst (iteration e opts st) @ later, st2, e2, exit)))
   \<and> runSummary (dispatchLoop 4 exampleEnv exampleOpts headOfLineQueuer)
       = Some ([Resolve ''f1'' (), PersistCall 1706743800250, PersistCall 1706743800250,
                Delay 250,
                Resolve ''s1'' (), PersistCall 1706743800750, PersistCall 1706743800750],
               [], 1706743800750, None)"
proof (intro conjI impI)
  show "fst (fst (scanQueue e opts (clock e) (queue st) 0 None (usage st))) = Runnable j
      \<longleftrightarrow> j < length (queue st)
          \<and> itemWait e opts (clock e) (usage st) (queue st ! j) = Inr (Num 0)
          \<and> (\<forall>k<j. \<exists>w. itemWait e opts (clock e) (usage st) (queue st ! k) = Inr w \<and> w \<noteq> Num 0)"
    by (simp add: scanQueue_index itemWait_runnable itemWait_waiting)
next
  assume a: "fst (fst (scanQueue e opts (clock e) (queue st) 0 None (usage st))) = Runnable j"
  then obtain mw store1 where
    scan: "scanQueue e opts (clock e) (queue st) 0 None (usage st) = ((Runnable j, mw), store1)"
    by (cases "scanQueue e opts (clock e) (queue st) 0 None (usage st)") auto
  from iteration_runnable(2) [OF scan]
  show "queue (fst (snd (iteration e opts st))) = splice1 j (queue st)" .
  from iteration_runnable(1) [OF scan] scan
  show "fst (iteration e opts st) =
              fst (dispatch e (queue st ! j) (snd (scanQueue e opts (clock e) (queue st) 0 None (usage st))))
              @ (if truthy (fallbackDelayMs opts) \<and> splice1 j (queue st) \<noteq> []
                 then [Delay (or_zero (fallbackDelayMs opts))] else [])"
    by simp
  from iteration_runnable(3) [OF scan]
  show "snd (snd (snd (iteration e opts st))) = None" .
next
  show "fst (fst (scanQueue e opts (clock e) (queue st) 0 None (usage st))) = NoneRunnable
      \<longleftrightarrow> (\<forall>k<length (queue st).
              \<exists>w. itemWait e opts (clock e) (usage st) (queue st ! k) = Inr w \<and> w \<noteq> Num 0)"
    by (simp add: scanQueue_none itemWait_waiting)
next
  assume a: "fst (fst (scanQueue e opts (clock e) (queue st) 0 None (usage st))) = NoneRunnable"
  then obtain mw store1 where
    scan: "scanQueue e opts (clock e) (queue st) 0 None (usage st) = ((NoneRunnable, mw), store1)"
    by (cases "scanQueue e opts (clock e) (queue st) 0 None (usage st)") auto
  let ?D = "case minObserved (map (itemWait e opts (clock e) (usage st)) (queue st)) of
              None \<Rightarrow> 5000
            | Some m \<Rightarrow> max 1 (min m 5000)"
  from a have "\<forall>x\<in>set (queue st). \<exists>w. itemWait e opts (clock e) (usage st) x = Inr w \<and> \<not> le_zero w"
    by (simp add: scanQueue_none_set)
  from scanQueue_minWait [OF this, of 0 None] scan
  have mw: "mw = minObserved (map (itemWait e opts (clock e) (usage st)) (queue st))"
    by (simp add: foldl_lower_None)
  have D: "sleepMs mw = ?D"
    unfolding mw by (cases "minObserved (map (itemWait e opts (clock e) (usage st)) (queue st))") simp_all
  from iteration_sleep [OF scan] D
  have it: "iteration e opts st = ([Delay ?D], st\<lparr>usage := store1\<rparr>, e\<lparr>clock := clock e + ?D\<rparr>, None)"
    by simp
  from it show "fst (iteration e opts st) = [Delay ?D]" by simp
  from it show "queue (fst (snd (iteration e opts st))) = queue st" by simp
  from it show "clock (fst (snd (snd (iteration e opts st)))) = clock e + ?D" by simp
  from it show "snd (snd (snd (iteration e opts st))) = None" by simp
next
  show "dispatchLoop (Suc fuel) e opts st =
       (if queue st = [] then Some ([], st, e, None)
        else case snd (snd (snd (iteration e opts st))) of
               Some err \<Rightarrow> Some (iteration e opts st)
             | None \<Rightarrow>
                 (case dispatchLoop fuel (fst (snd (snd (iteration e opts st)))) opts
                         (fst (snd (iteration e opts st))) of
                    None \<Rightarrow> None
                  | Some (later, st2, e2, exit) \<Rightarrow> Some (fst (iteration e opts st) @ later, st2, e2, exit)))"
    by (cases "iteration e opts st") (auto split: option.splits)
next
  show "runSummary (dispatchLoop 4 exampleEnv exampleOpts headOfLineQueuer)
       = Some ([Resolve ''f1'' (), PersistCall 1706743800250, PersistCall 1706743800250,
                Delay 250,
                Resolve ''s1'' (), PersistCall 1706743800750, PersistCall 1706743800750],
               [], 1706743800750, None)"
    by code_simp
qed

theorem dispatch_selects_first_runnable_witness:
  "map (itemWait exampleEnv exampleOpts (clock exampleEnv) (usage headOfLineQueuer)) (queue headOfLineQueuer)
     = [Inr (Num 500), Inr (Num 0)]
   \<and> fst (fst (scanQueue exampleEnv exampleOpts (clock exampleEnv) (queue headOfLineQueuer) 0 None
                (usage headOfLineQueuer))) = Runnable 1
   \<and> map item_id (queue (fst (snd (iteration exampleEnv exampleOpts headOfLineQueuer)))) = [''s1'']
   \<and> fst (iteration exampleEnv exampleOpts headOfLineQueuer)
       = [Resolve ''f1'' (), PersistCall 1706743800250, PersistCall 1706743800250]
   \<and> map (itemWait exampleEnv exampleOpts (clock exampleEnv) (usage blockedQueuer)) (queue blockedQueuer)
       = [Inr (Num 500), Inr (Num 50000)]
   \<and> fst (fst (scanQueue exampleEnv exampleOpts (clock exampleEnv) (queue blockedQueuer) 0 None
                (usage blockedQueuer))) = NoneRunnable
   \<and> fst (iteration exampleEnv exampleOpts blockedQueuer) = [Delay 500]
   \<and> queue (fst (snd (iteration exampleEnv exampleOpts blockedQueuer))) = queue blockedQueuer
   \<and> clock (fst (snd (snd (iteration exampleEnv exampleOpts blockedQueuer)))) = 1706743800500
   \<and> map (itemWait exampleEnv exampleOpts (clock exampleEnv) (usage cappedQueuer)) (queue cappedQueuer)
       = [Inr (Num 50000)]
   \<and> fst (iteration exampleEnv exampleOpts cappedQueuer) = [Delay 5000]
   \<and> map (itemWait exampleEnv exampleOpts (clock exampleEnv) (usage nearlyFreeQueuer)) (queue nearlyFreeQueuer)
       = [Inr (Num (1 / 2))]
   \<and> fst (iteration exampleEnv exampleOpts nearlyFreeQueuer) = [Delay 1]
   \<and> runSummary (dispatchLoop 4 exampleEnv exampleOpts headOfLineQueuer)
       = Some ([Resolve ''f1'' (), PersistCall 1706743800250, PersistCall 1706743800250,
                Delay 250,
                Resolve ''s1'' (), PersistCall 1706743800750, PersistCall 1706743800750],
               [], 1706743800750, None)
   \<and> runSummary (dispatchLoop 3 exampleEnv exampleOpts headOfLineQueuer) = None"
proof -
  have w1: "map (itemWait exampleEnv exampleOpts (clock exampleEnv) (usage headOfLineQueuer))
              (queue headOfLineQueuer) = [Inr (Num 500), Inr (Num 0)]"
    by code_simp
  have q1: "length (queue headOfLineQueuer) = 2" "map item_id (splice1 1 (queue headOfLineQueuer)) = [''s1'']"
    by code_simp+
  have s1: "fst (fst (scanQueue exampleEnv exampleOpts (clock exampleEnv) (queue headOfLineQueuer) 0 None
                (usage headOfLineQueuer))) = Runnable 1"
    by code_simp
  have d1: "fst (dispatch exampleEnv (queue headOfLineQueuer ! 1)
                  (snd (scanQueue exampleEnv exampleOpts (clock exampleEnv) (queue headOfLineQueuer) 0 None
                          (usage headOfLineQueuer))))
              = [Resolve ''f1'' (), PersistCall 1706743800250, PersistCall 1706743800250]"
    by code_simp
  have f: "\<not> truthy (fallbackDelayMs exampleOpts)"
    by code_simp
  have w2: "map (itemWait exampleEnv exampleOpts (clock exampleEnv) (usage blockedQueuer))
              (queue blockedQueuer) = [Inr (Num 500), Inr (Num 50000)]"
    by code_simp
  have s2: "fst (fst (scanQueue exampleEnv exampleOpts (clock exampleEnv) (queue blockedQueuer) 0 None
                (usage blockedQueuer))) = NoneRunnable"
    by code_simp
  have m2: "(case minObserved [Inr (Num 500), Inr (Num 50000)] of
               None \<Rightarrow> 5000 | Some m \<Rightarrow> max 1 (min m 5000)) = (500::real)"
    by code_simp
  have c2: "clock exampleEnv + 500 = 1706743800500"
    by code_simp
  have w3: "map (itemWait exampleEnv exampleOpts (clock exampleEnv) (usage cappedQueuer))
              (queue cappedQueuer) = [Inr (Num 50000)]"
    by code_simp
  have s3: "fst (fst (scanQueue exampleEnv exampleOpts (clock exampleEnv) (queue cappedQueuer) 0 None
                (usage cappedQueuer))) = NoneRunnable"
    by code_simp
  have m3: "(case minObserved [Inr (Num 50000)] of
               None \<Rightarrow> 5000 | Some m \<Rightarrow> max 1 (min m 5000)) = (5000::real)"
    by code_simp
  have w4: "map (itemWait exampleEnv exampleOpts (clock exampleEnv) (usage nearlyFreeQueuer))
              (queue nearlyFreeQueuer) = [Inr (Num (1 / 2))]"
    by code_simp
  have s4: "fst (fst (scanQueue exampleEnv exampleOpts (clock exampleEnv) (queue nearlyFreeQueuer) 0 None
                (usage nearlyFreeQueuer))) = NoneRunnable"
    by code_simp
  have m4: "(case minObserved [Inr (Num (1 / 2))] of
               None \<Rightarrow> 5000 | Some m \<Rightarrow> max 1 (min m 5000)) = (1::real)"
    by code_simp
  have r3: "runSummary (dispatchLoop 3 exampleEnv exampleOpts headOfLineQueuer) = None"
    by code_simp
  note t1 = dispatch_selects_first_runnable [of exampleEnv exampleOpts headOfLineQueuer 1 0]
  note t2 = dispatch_selects_first_runnable [of exampleEnv exampleOpts blockedQueuer 0 0]
  note t3 = dispatch_selects_first_runnable [of exampleEnv exampleOpts cappedQueuer 0 0]
  note t4 = dispatch_selects_first_runnable [of exampleEnv exampleOpts nearlyFreeQueuer 0 0]
  from t1 s1 have i1: "queue (fst (snd (iteration exampleEnv exampleOpts headOfLineQueuer)))
                         = splice1 1 (queue headOfLineQueuer)"
    and e1: "fst (iteration exampleEnv exampleOpts headOfLineQueuer) =
              fst (dispatch exampleEnv (queue headOfLineQueuer ! 1)
                     (snd (scanQueue exampleEnv exampleOpts (clock exampleEnv) (queue headOfLineQueuer) 0 None
                             (usage headOfLineQueuer))))
              @ (if truthy (fallbackDelayMs exampleOpts) \<and> splice1 1 (queue headOfLineQueuer) \<noteq> []
                 then [Delay (or_zero (fallbackDelayMs exampleOpts))] else [])"
    and run: "runSummary (dispatchLoop 4 exampleEnv exampleOpts headOfLineQueuer)
       = Some ([Resolve ''f1'' (), PersistCall 1706743800250, PersistCall 1706743800250,
                Delay 250,
                Resolve ''s1'' (), PersistCall 1706743800750, PersistCall 1706743800750],
               [], 1706743800750, None)"
    by blast+
  from t2 s2 have e2: "fst (iteration exampleEnv exampleOpts blockedQueuer)
            = [Delay (case minObserved (map (itemWait exampleEnv exampleOpts (clock exampleEnv)
                                               (usage blockedQueuer)) (queue blockedQueuer)) of
                        None \<Rightarrow> 5000
                      | Some m \<Rightarrow> max 1 (min m 5000))]"
    and i2: "queue (fst (snd (iteration exampleEnv exampleOpts blockedQueuer))) = queue blockedQueuer"
    and k2: "clock (fst (snd (snd (iteration exampleEnv exampleOpts blockedQueuer))))
              = clock exampleEnv + (case minObserved (map (itemWait exampleEnv exampleOpts (clock exampleEnv)
                                               (usage blockedQueuer)) (queue blockedQueuer)) of
                             None \<Rightarrow> 5000
                           | Some m \<Rightarrow> max 1 (min m 5000))"
    by blast+
  from t3 s3 have e3: "fst (iteration exampleEnv exampleOpts cappedQueuer)
            = [Delay (case minObserved (map (itemWait exampleEnv exampleOpts (clock exampleEnv)
                                               (usage cappedQueuer)) (queue cappedQueuer)) of
                        None \<Rightarrow> 5000
                      | Some m \<Rightarrow> max 1 (min m 5000))]"
    by blast
  from t4 s4 have e4: "fst (iteration exampleEnv exampleOpts nearlyFreeQueuer)
            = [Delay (case minObserved (map (itemWait exampleEnv exampleOpts (clock exampleEnv)
                                               (usage nearlyFreeQueuer)) (queue nearlyFreeQueuer)) of
                        None \<Rightarrow> 5000
                      | Some m \<Rightarrow> max 1 (min m 5000))]"
    by blast
  have a1: "map item_id (queue (fst (snd (iteration exampleEnv exampleOpts headOfLineQueuer)))) = [''s1'']"
    by (simp only: i1 q1)
  have a2: "fst (iteration exampleEnv exampleOpts headOfLineQueuer)
       = [Resolve ''f1'' (), PersistCall 1706743800250, PersistCall 1706743800250]"
    using e1 d1 f by simp
  have b2: "fst (iteration exampleEnv exampleOpts blockedQueuer) = [Delay 500]"
    by (simp only: e2 w2 m2)
  have b3: "clock (fst (snd (snd (iteration exampleEnv exampleOpts blockedQueuer)))) = 1706743800500"
    by (simp only: k2 w2 m2 c2)
  have b4: "fst (iteration exampleEnv exampleOpts cappedQueuer) = [Delay 5000]"
    by (simp only: e3 w3 m3)
  have b5: "fst (iteration exampleEnv exampleOpts nearlyFreeQueuer) = [Delay 1]"
    by (simp only: e4 w4 m4)
  show ?thesis
    apply (intro conjI)
    apply (rule w1)
    apply (rule s1)
    apply (rule a1)
    apply (rule a2)
    apply (rule w2)
    apply (rule s2)
    apply (rule b2)
    apply (rule i2)
    apply (rule b3)
    apply (rule w3)
    apply (rule b4)
    apply (rule w4)
    apply (rule b5)
    apply (rule run)
    apply (rule r3)
    done
qed


section \<open>Order within one model\<close>





section \<open>The estimate and the length of the queue\<close>

lemma simMaintenance_fields:
  "secondWindowTimestamps (simMaintenance e now b) = dropWhile (\<lambda>t. t \<le> now - 1000) (secondWindowTimestamps b)"
  "minuteWindowTimestamps (simMaintenance e now b) = dropWhile (\<lambda>t. t \<le> now - 60000) (minuteWindowTimestamps b)"
  "dayWindowTimestamps (simMaintenance e now b) = dropWhile (\<lambda>t. t \<le> now - 86400000) (dayWindowTimestamps b)"
  "monthTokenCount (simMaintenance e now b) = (if now \<ge> monthTokenResetAt b then 0 else monthTokenCount b)"
  "monthTokenResetAt (simMaintenance e now b) =
     (if now \<ge> monthTokenResetAt b then startOfNextMonth e else monthTokenResetAt b)"
  "monthRequestCount (simMaintenance e now b) = (if now \<ge> monthRequestResetAt b then 0 else monthRequestCount b)"
  "monthRequestResetAt (simMaintenance e now b) =
     (if now \<ge> monthRequestResetAt b then startOfNextMonth e else monthRequestResetAt b)"
  "minuteTokenCount (simMaintenance e now b) = minuteTokenCount b"
  "minuteTokenWindowStart (simMaintenance e now b) = minuteTokenWindowStart b"
  by (simp_all add: simMaintenance_def pruneWindows_def
      maybeResetMonthlyRequests_def maybeResetMonthlyTokens_def Let_def)

lemma simMaintenance_idem [simp]: "simMaintenance e t (simMaintenance e t b) = simMaintenance e t b"
  by (rule UsageBucket.equality) (simp_all add: simMaintenance_fields)




lemma lower_minWait_idem [simp]: "lower_minWait w (lower_minWait w mw) = lower_minWait w mw"
  by (cases w; cases mw) simp_all










text \<open>One turn of the replay, by what its scan finds.\<close>

lemma simLoop_Suc:
  assumes "q \<noteq> []" and "scanSim e opts now t q 0 None sim = ((found, mw), sim1)"
  shows "simLoop (Suc f) e opts now exec t sim q =
           (case found of
              ScanThrew err \<Rightarrow> Some (Inl err)
            | NoneRunnable \<Rightarrow> simLoop f e opts now exec (t + sleepMs mw) sim1 q
            | Runnable i \<Rightarrow>
                if hypothetical (q ! i) then Some (Inr (max 0 (t - now)))
                else simLoop f e opts now exec
                       (if truthy (fallbackDelayMs opts) \<and> splice1 i q \<noteq> []
                        then t + max 0 exec + or_zero (fallbackDelayMs opts) else t + max 0 exec)
                       (recordUsageSim e now t (simTokens (q ! i)) (simModelName (q ! i)) sim1)
                       (splice1 i q))"
  using assms by (simp add: Let_def split: scanned.splits)




text \<open>A replay that ends with some fuel ends the same with more.\<close>

lemma simLoop_more_fuel:
  "simLoop f e opts now exec t sim q = Some r \<Longrightarrow> simLoop (f + k) e opts now exec t sim q = Some r"
proof (induction f arbitrary: t sim q)
  case 0
  then show ?case by simp
next
  case (Suc f)
  show ?case
  proof (cases "q = []")
    case True
    with Suc.prems show ?thesis by simp
  next
    case False
    obtain found mw sim1 where scan: "scanSim e opts now t q 0 None sim = ((found, mw), sim1)"
      by (cases "scanSim e opts now t q 0 None sim") auto
    note step = simLoop_Suc [OF False scan, of _ exec]
    show ?thesis
    proof (cases found)
      case (ScanThrew err)
      with Suc.prems step [of f] step [of "f + k"] show ?thesis by simp
    next
      case NoneRunnable
      with Suc.prems step [of f]
      have "simLoop f e opts now exec (t + sleepMs mw) sim1 q = Some r"
        by simp
      from Suc.IH [OF this] step [of "f + k"] NoneRunnable show ?thesis
        by simp
    next
      case (Runnable i)
      show ?thesis
      proof (cases "hypothetical (q ! i)")
        case True
        with Suc.prems step [of f] step [of "f + k"] Runnable show ?thesis by simp
      next
        case nh: False
        define t2 where "t2 = (if truthy (fallbackDelayMs opts) \<and> splice1 i q \<noteq> []
                               then t + max 0 exec + or_zero (fallbackDelayMs opts) else t + max 0 exec)"
        from Suc.prems step [of f] Runnable nh
        have "simLoop f e opts now exec t2
                (recordUsageSim e now t (simTokens (q ! i)) (simModelName (q ! i)) sim1)
                (splice1 i q) = Some r"
          by (simp add: t2_def)
        from Suc.IH [OF this] step [of "f + k"] Runnable nh show ?thesis
          by (simp add: t2_def)
      qed
    qed
  qed
qed

text \<open>
  The constructor of the queuer takes any number as fallback delay. With a negative one
  the cursor of the replay moves back after an item: a request of 20 tokens for \<^verbatim>\<open>h\<close>,
  estimated at 1000 ms on an empty queue, is estimated at 0 with one more item of the same
  model and size pending.
\<close>

lemma negative_fallback_delay_lowers_estimate:
  "estimateWaitMs 10 exampleEnv hastyOpts 500 [] hastyStore (Some ''h'') 20 = Some (Inr 1000)
   \<and> estimateWaitMs 10 exampleEnv hastyOpts 500 ([] @ [okItem ''h1'' (Some ''h'') (Some 20)])
       hastyStore (Some ''h'') 20 = Some (Inr 0)"
  by code_simp




end
